theory Spec2Isabelle
  imports Main "HOL-Library.Word"
begin

unbundle bit_operations_syntax

section \<open>Data model\<close>

text \<open>
  The package wraps the arbitrary-precision decimal of \<^verbatim>\<open>github.com/shopspring/decimal\<close>
  into a currency-tagged \<^verbatim>\<open>Money\<close>. Go's \<^verbatim>\<open>int32\<close> is a 32-bit word read through
  \<open>sint\<close> (its arithmetic wraps), \<^verbatim>\<open>int64\<close> a 64-bit word, \<^verbatim>\<open>*big.Int\<close> an unbounded
  \<open>int\<close>, a Go string and a \<^verbatim>\<open>[]byte\<close> a list of bytes (an Isabelle \<open>char\<close> is a byte), and a
  pointer \<^verbatim>\<open>*Currency\<close> an \<open>option\<close> whose \<open>None\<close> is \<^verbatim>\<open>nil\<close>.
\<close>

type_synonym int32 = "32 word"
type_synonym int64 = "64 word"
type_synonym uint8 = "8 word"
type_synonym byte = "8 word"

datatype CurrType = FIAT | CRYPTO | LOYALTY | REWARD | GAME | POINTS | UNKNOWN

record Currency =
  Type :: CurrType
  Code :: string
  Fraction :: int
  Grapheme :: string
  Template :: string
  DecPoint :: string
  Thousand :: string

text \<open>\<^verbatim>\<open>decimal.Decimal{value *big.Int, exp int32}\<close>; a nil \<^verbatim>\<open>value\<close> is read as 0 by the
  library's own \<^verbatim>\<open>ensureInitialized\<close>, so the zero value of the struct is \<open>(0, 0)\<close>.\<close>

record Decimal =
  dvalue :: int
  dexp :: int32

record Money =
  amount :: Decimal
  currency :: "Currency option"

record Formatter =
  fFraction :: int
  fDecPoint :: string
  fThousand :: string
  fGrapheme :: string
  fTemplate :: string

text \<open>A panic aborts the operation; a reported error is returned beside a result.\<close>

datatype panic =
    CurrencyMismatch string string
  | NilDereference
  | DivisionByZero
  | QuoRemOverflow
  | ExponentOverflow int
  | BadCashInterval uint8
  | IndexOutOfRange

datatype error =
    CurrencyNotSupported string
  | CurrencyAlreadySet string string
  | NotEnoughData nat
  | GobVersionNotSupported byte
  | CannotConvert string
  | TooManyDots string
  | ExponentNotNumeric string
  | FractionalPartTooLong string
  | ErrorDecodingString string

text \<open>The package-level variables. \<^verbatim>\<open>getBadCurrency()\<close> is called by the constructors of
  \<^verbatim>\<open>money.go\<close> but defined in none of the source files, so the record it returns is a field
  here beside the registry \<^verbatim>\<open>currencies\<close> and \<^verbatim>\<open>DivisionPrecision\<close>.\<close>

record globals =
  currencies :: "string \<Rightarrow> Currency option"
  DivisionPrecision :: int
  badCurrency :: Currency

section \<open>Currency registry\<close>

definition UnknownCurrencyCode :: string where
  "UnknownCurrencyCode = ''???''"

definition mkCurrency ::
  "CurrType \<Rightarrow> string \<Rightarrow> string \<Rightarrow> string \<Rightarrow> int \<Rightarrow> string \<Rightarrow> string \<Rightarrow> Currency" where
  "mkCurrency t dp th c fr gr tm =
     \<lparr>Type = t, Code = c, Fraction = fr, Grapheme = gr, Template = tm, DecPoint = dp, Thousand = th\<rparr>"

text \<open>The literal of \<^verbatim>\<open>var currencies\<close>, in the order of the source; graphemes outside ASCII
  are the bytes of their UTF-8 encoding.\<close>

definition currencyTable :: "(string \<times> Currency) list" where
  "currencyTable = [
  (''AED'', mkCurrency FIAT ''.'' '','' ''AED'' 2 (''.'' @ [CHR 0xD8, CHR 0xAF] @ ''.'' @ [CHR 0xD8, CHR 0xA5]) ''1 $''),
  (''AFN'', mkCurrency FIAT ''.'' '','' ''AFN'' 2 [CHR 0xD8, CHR 0x8B] ''1 $''),
  (''ALL'', mkCurrency FIAT ''.'' '','' ''ALL'' 2 ''L'' ''$1''),
  (''AMD'', mkCurrency FIAT ''.'' '','' ''AMD'' 2 ([CHR 0xD5, CHR 0xA4, CHR 0xD6, CHR 0x80] @ ''.'') ''1 $''),
  (''ANG'', mkCurrency FIAT ''.'' '','' ''ANG'' 2 [CHR 0xC6, CHR 0x92] ''$1''),
  (''ARS'', mkCurrency FIAT ''.'' '','' ''ARS'' 2 ''$'' ''$1''),
  (''AUD'', mkCurrency FIAT ''.'' '','' ''AUD'' 2 ''$'' ''$1''),
  (''AWG'', mkCurrency FIAT ''.'' '','' ''AWG'' 2 [CHR 0xC6, CHR 0x92] ''$1''),
  (''AZN'', mkCurrency FIAT ''.'' '','' ''AZN'' 2 [CHR 0xE2, CHR 0x82, CHR 0xBC] ''$1''),
  (''BAM'', mkCurrency FIAT ''.'' '','' ''BAM'' 2 ''KM'' ''$1''),
  (''BBD'', mkCurrency FIAT ''.'' '','' ''BBD'' 2 ''$'' ''$1''),
  (''BGN'', mkCurrency FIAT ''.'' '','' ''BGN'' 2 [CHR 0xD0, CHR 0xBB, CHR 0xD0, CHR 0xB2] ''$1''),
  (''BHD'', mkCurrency FIAT ''.'' '','' ''BHD'' 3 (''.'' @ [CHR 0xD8, CHR 0xAF] @ ''.'' @ [CHR 0xD8, CHR 0xA8]) ''1 $''),
  (''BMD'', mkCurrency FIAT ''.'' '','' ''BMD'' 2 ''$'' ''$1''),
  (''BND'', mkCurrency FIAT ''.'' '','' ''BND'' 2 ''$'' ''$1''),
  (''BOB'', mkCurrency FIAT ''.'' '','' ''BOB'' 2 ''Bs.'' ''$1''),
  (''BRL'', mkCurrency FIAT ''.'' '','' ''BRL'' 2 ''R$'' ''$1''),
  (''BSD'', mkCurrency FIAT ''.'' '','' ''BSD'' 2 ''$'' ''$1''),
  (''BWP'', mkCurrency FIAT ''.'' '','' ''BWP'' 2 ''P'' ''$1''),
  (''BYN'', mkCurrency FIAT ''.'' '','' ''BYN'' 2 ''p.'' ''1 $''),
  (''BYR'', mkCurrency FIAT ''.'' '','' ''BYR'' 0 ''p.'' ''1 $''),
  (''BZD'', mkCurrency FIAT ''.'' '','' ''BZD'' 2 ''BZ$'' ''$1''),
  (''CAD'', mkCurrency FIAT ''.'' '','' ''CAD'' 2 ''$'' ''$1''),
  (''CLP'', mkCurrency FIAT ''.'' '','' ''CLP'' 0 ''$'' ''$1''),
  (''CNY'', mkCurrency FIAT ''.'' '','' ''CNY'' 2 [CHR 0xE5, CHR 0x85, CHR 0x83] ''1 $''),
  (''COP'', mkCurrency FIAT ''.'' '','' ''COP'' 0 ''$'' ''$1''),
  (''CRC'', mkCurrency FIAT ''.'' '','' ''CRC'' 2 [CHR 0xE2, CHR 0x82, CHR 0xA1] ''$1''),
  (''CUP'', mkCurrency FIAT ''.'' '','' ''CUP'' 2 ''$MN'' ''$1''),
  (''CZK'', mkCurrency FIAT ''.'' '','' ''CZK'' 2 (''K'' @ [CHR 0xC4, CHR 0x8D]) ''1 $''),
  (''DKK'', mkCurrency FIAT ''.'' '','' ''DKK'' 2 ''kr'' ''1 $''),
  (''DOP'', mkCurrency FIAT ''.'' '','' ''DOP'' 2 ''RD$'' ''$1''),
  (''DZD'', mkCurrency FIAT ''.'' '','' ''DZD'' 2 (''.'' @ [CHR 0xD8, CHR 0xAF] @ ''.'' @ [CHR 0xD8, CHR 0xAC]) ''1 $''),
  (''EEK'', mkCurrency FIAT ''.'' '','' ''EEK'' 2 ''kr'' ''$1''),
  (''EGP'', mkCurrency FIAT ''.'' '','' ''EGP'' 2 [CHR 0xC2, CHR 0xA3] ''$1''),
  (''EUR'', mkCurrency FIAT ''.'' '','' ''EUR'' 2 [CHR 0xE2, CHR 0x82, CHR 0xAC] ''$1''),
  (''FJD'', mkCurrency FIAT ''.'' '','' ''FJD'' 2 ''$'' ''$1''),
  (''FKP'', mkCurrency FIAT ''.'' '','' ''FKP'' 2 [CHR 0xC2, CHR 0xA3] ''$1''),
  (''GBP'', mkCurrency FIAT ''.'' '','' ''GBP'' 2 [CHR 0xC2, CHR 0xA3] ''$1''),
  (''GGP'', mkCurrency FIAT ''.'' '','' ''GGP'' 2 [CHR 0xC2, CHR 0xA3] ''$1''),
  (''GHC'', mkCurrency FIAT ''.'' '','' ''GHC'' 2 [CHR 0xC2, CHR 0xA2] ''$1''),
  (''GIP'', mkCurrency FIAT ''.'' '','' ''GIP'' 2 [CHR 0xC2, CHR 0xA3] ''$1''),
  (''GTQ'', mkCurrency FIAT ''.'' '','' ''GTQ'' 2 ''Q'' ''$1''),
  (''GYD'', mkCurrency FIAT ''.'' '','' ''GYD'' 2 ''$'' ''$1''),
  (''HKD'', mkCurrency FIAT ''.'' '','' ''HKD'' 2 ''$'' ''$1''),
  (''HNL'', mkCurrency FIAT ''.'' '','' ''HNL'' 2 ''L'' ''$1''),
  (''HRK'', mkCurrency FIAT ''.'' '','' ''HRK'' 2 ''kn'' ''$1''),
  (''HUF'', mkCurrency FIAT ''.'' '','' ''HUF'' 0 ''Ft'' ''$1''),
  (''IDR'', mkCurrency FIAT ''.'' '','' ''IDR'' 2 ''Rp'' ''$1''),
  (''ILS'', mkCurrency FIAT ''.'' '','' ''ILS'' 2 [CHR 0xE2, CHR 0x82, CHR 0xAA] ''$1''),
  (''IMP'', mkCurrency FIAT ''.'' '','' ''IMP'' 2 [CHR 0xC2, CHR 0xA3] ''$1''),
  (''INR'', mkCurrency FIAT ''.'' '','' ''INR'' 2 [CHR 0xE2, CHR 0x82, CHR 0xB9] ''$1''),
  (''IQD'', mkCurrency FIAT ''.'' '','' ''IQD'' 3 (''.'' @ [CHR 0xD8, CHR 0xAF] @ ''.'' @ [CHR 0xD8, CHR 0xB9]) ''1 $''),
  (''IRR'', mkCurrency FIAT ''.'' '','' ''IRR'' 2 [CHR 0xEF, CHR 0xB7, CHR 0xBC] ''1 $''),
  (''ISK'', mkCurrency FIAT ''.'' '','' ''ISK'' 2 ''kr'' ''$1''),
  (''JEP'', mkCurrency FIAT ''.'' '','' ''JEP'' 2 [CHR 0xC2, CHR 0xA3] ''$1''),
  (''JMD'', mkCurrency FIAT ''.'' '','' ''JMD'' 2 ''J$'' ''$1''),
  (''JOD'', mkCurrency FIAT ''.'' '','' ''JOD'' 3 (''.'' @ [CHR 0xD8, CHR 0xAF] @ ''.'' @ [CHR 0xD8, CHR 0xA5]) ''1 $''),
  (''JPY'', mkCurrency FIAT ''.'' '','' ''JPY'' 0 [CHR 0xC2, CHR 0xA5] ''$1''),
  (''KES'', mkCurrency FIAT ''.'' '','' ''KES'' 2 ''KSh'' ''$1''),
  (''KGS'', mkCurrency FIAT ''.'' '','' ''KGS'' 2 [CHR 0xD1, CHR 0x81, CHR 0xD0, CHR 0xBE, CHR 0xD0, CHR 0xBC] ''$1''),
  (''KHR'', mkCurrency FIAT ''.'' '','' ''KHR'' 2 [CHR 0xE1, CHR 0x9F, CHR 0x9B] ''$1''),
  (''KPW'', mkCurrency FIAT ''.'' '','' ''KPW'' 0 [CHR 0xE2, CHR 0x82, CHR 0xA9] ''$1''),
  (''KRW'', mkCurrency FIAT ''.'' '','' ''KRW'' 0 [CHR 0xE2, CHR 0x82, CHR 0xA9] ''$1''),
  (''KWD'', mkCurrency FIAT ''.'' '','' ''KWD'' 3 (''.'' @ [CHR 0xD8, CHR 0xAF] @ ''.'' @ [CHR 0xD9, CHR 0x83]) ''1 $''),
  (''KYD'', mkCurrency FIAT ''.'' '','' ''KYD'' 2 ''$'' ''$1''),
  (''KZT'', mkCurrency FIAT ''.'' '','' ''KZT'' 2 [CHR 0xE2, CHR 0x82, CHR 0xB8] ''$1''),
  (''LAK'', mkCurrency FIAT ''.'' '','' ''LAK'' 2 [CHR 0xE2, CHR 0x82, CHR 0xAD] ''$1''),
  (''LBP'', mkCurrency FIAT ''.'' '','' ''LBP'' 2 [CHR 0xC2, CHR 0xA3] ''$1''),
  (''LKR'', mkCurrency FIAT ''.'' '','' ''LKR'' 2 [CHR 0xE2, CHR 0x82, CHR 0xA8] ''$1''),
  (''LRD'', mkCurrency FIAT ''.'' '','' ''LRD'' 2 ''$'' ''$1''),
  (''LTL'', mkCurrency FIAT ''.'' '','' ''LTL'' 2 ''Lt'' ''$1''),
  (''LVL'', mkCurrency FIAT ''.'' '','' ''LVL'' 2 ''Ls'' ''1 $''),
  (''LYD'', mkCurrency FIAT ''.'' '','' ''LYD'' 3 (''.'' @ [CHR 0xD8, CHR 0xAF] @ ''.'' @ [CHR 0xD9, CHR 0x84]) ''1 $''),
  (''MAD'', mkCurrency FIAT ''.'' '','' ''MAD'' 2 (''.'' @ [CHR 0xD8, CHR 0xAF] @ ''.'' @ [CHR 0xD9, CHR 0x85]) ''1 $''),
  (''MKD'', mkCurrency FIAT ''.'' '','' ''MKD'' 2 [CHR 0xD0, CHR 0xB4, CHR 0xD0, CHR 0xB5, CHR 0xD0, CHR 0xBD] ''$1''),
  (''MNT'', mkCurrency FIAT ''.'' '','' ''MNT'' 2 [CHR 0xE2, CHR 0x82, CHR 0xAE] ''$1''),
  (''MUR'', mkCurrency FIAT ''.'' '','' ''MUR'' 2 [CHR 0xE2, CHR 0x82, CHR 0xA8] ''$1''),
  (''MXN'', mkCurrency FIAT ''.'' '','' ''MXN'' 2 ''$'' ''$1''),
  (''MWK'', mkCurrency FIAT ''.'' '','' ''MWK'' 2 ''MK'' ''$1''),
  (''MYR'', mkCurrency FIAT ''.'' '','' ''MYR'' 2 ''RM'' ''$1''),
  (''MZN'', mkCurrency FIAT ''.'' '','' ''MZN'' 2 ''MT'' ''$1''),
  (''NAD'', mkCurrency FIAT ''.'' '','' ''NAD'' 2 ''$'' ''$1''),
  (''NGN'', mkCurrency FIAT ''.'' '','' ''NGN'' 2 [CHR 0xE2, CHR 0x82, CHR 0xA6] ''$1''),
  (''NIO'', mkCurrency FIAT ''.'' '','' ''NIO'' 2 ''C$'' ''$1''),
  (''NOK'', mkCurrency FIAT ''.'' '','' ''NOK'' 2 ''kr'' ''1 $''),
  (''NPR'', mkCurrency FIAT ''.'' '','' ''NPR'' 2 [CHR 0xE2, CHR 0x82, CHR 0xA8] ''$1''),
  (''NZD'', mkCurrency FIAT ''.'' '','' ''NZD'' 2 ''$'' ''$1''),
  (''OMR'', mkCurrency FIAT ''.'' '','' ''OMR'' 3 [CHR 0xEF, CHR 0xB7, CHR 0xBC] ''1 $''),
  (''PAB'', mkCurrency FIAT ''.'' '','' ''PAB'' 2 ''B/.'' ''$1''),
  (''PEN'', mkCurrency FIAT ''.'' '','' ''PEN'' 2 ''S/'' ''$1''),
  (''PHP'', mkCurrency FIAT ''.'' '','' ''PHP'' 2 [CHR 0xE2, CHR 0x82, CHR 0xB1] ''$1''),
  (''PKR'', mkCurrency FIAT ''.'' '','' ''PKR'' 2 [CHR 0xE2, CHR 0x82, CHR 0xA8] ''$1''),
  (''PLN'', mkCurrency FIAT ''.'' '','' ''PLN'' 2 (''z'' @ [CHR 0xC5, CHR 0x82]) ''1 $''),
  (''PYG'', mkCurrency FIAT ''.'' '','' ''PYG'' 0 ''Gs'' ''1$''),
  (''QAR'', mkCurrency FIAT ''.'' '','' ''QAR'' 2 [CHR 0xEF, CHR 0xB7, CHR 0xBC] ''1 $''),
  (''RON'', mkCurrency FIAT ''.'' '','' ''RON'' 2 ''lei'' ''$1''),
  (''RSD'', mkCurrency FIAT ''.'' '','' ''RSD'' 2 ([CHR 0xD0, CHR 0x94, CHR 0xD0, CHR 0xB8, CHR 0xD0, CHR 0xBD] @ ''.'') ''$1''),
  (''RUB'', mkCurrency FIAT ''.'' '','' ''RUB'' 2 [CHR 0xE2, CHR 0x82, CHR 0xBD] ''1 $''),
  (''RUR'', mkCurrency FIAT ''.'' '','' ''RUR'' 2 [CHR 0xE2, CHR 0x82, CHR 0xBD] ''1 $''),
  (''SAR'', mkCurrency FIAT ''.'' '','' ''SAR'' 2 [CHR 0xEF, CHR 0xB7, CHR 0xBC] ''1 $''),
  (''SBD'', mkCurrency FIAT ''.'' '','' ''SBD'' 2 ''$'' ''$1''),
  (''SCR'', mkCurrency FIAT ''.'' '','' ''SCR'' 2 [CHR 0xE2, CHR 0x82, CHR 0xA8] ''$1''),
  (''SEK'', mkCurrency FIAT ''.'' '','' ''SEK'' 2 ''kr'' ''1 $''),
  (''SGD'', mkCurrency FIAT ''.'' '','' ''SGD'' 2 ''$'' ''$1''),
  (''SHP'', mkCurrency FIAT ''.'' '','' ''SHP'' 2 [CHR 0xC2, CHR 0xA3] ''$1''),
  (''SOS'', mkCurrency FIAT ''.'' '','' ''SOS'' 2 ''S'' ''$1''),
  (''SRD'', mkCurrency FIAT ''.'' '','' ''SRD'' 2 ''$'' ''$1''),
  (''SVC'', mkCurrency FIAT ''.'' '','' ''SVC'' 2 ''$'' ''$1''),
  (''SYP'', mkCurrency FIAT ''.'' '','' ''SYP'' 2 [CHR 0xC2, CHR 0xA3] ''$1''),
  (''THB'', mkCurrency FIAT ''.'' '','' ''THB'' 2 [CHR 0xE0, CHR 0xB8, CHR 0xBF] ''$1''),
  (''TND'', mkCurrency FIAT ''.'' '','' ''TND'' 3 (''.'' @ [CHR 0xD8, CHR 0xAF] @ ''.'' @ [CHR 0xD8, CHR 0xAA]) ''1 $''),
  (''TRL'', mkCurrency FIAT ''.'' '','' ''TRL'' 2 [CHR 0xE2, CHR 0x82, CHR 0xA4] ''$1''),
  (''TRY'', mkCurrency FIAT ''.'' '','' ''TRY'' 2 [CHR 0xE2, CHR 0x82, CHR 0xBA] ''$1''),
  (''TTD'', mkCurrency FIAT ''.'' '','' ''TTD'' 2 ''TT$'' ''$1''),
  (''TWD'', mkCurrency FIAT ''.'' '','' ''TWD'' 0 ''NT$'' ''$1''),
  (''TZS'', mkCurrency FIAT ''.'' '','' ''TZS'' 0 ''TSh'' ''$1''),
  (''UAH'', mkCurrency FIAT ''.'' '','' ''UAH'' 2 [CHR 0xE2, CHR 0x82, CHR 0xB4] ''$1''),
  (''UGX'', mkCurrency FIAT ''.'' '','' ''UGX'' 0 ''USh'' ''$1''),
  (''USD'', mkCurrency FIAT ''.'' '','' ''USD'' 2 ''$'' ''$1''),
  (''UYU'', mkCurrency FIAT ''.'' '','' ''UYU'' 0 ''$U'' ''$1''),
  (''UZS'', mkCurrency FIAT ''.'' '','' ''UZS'' 2 (''so'' @ [CHR 0xE2, CHR 0x80, CHR 0x99] @ ''m'') ''$1''),
  (''VEF'', mkCurrency FIAT ''.'' '','' ''VEF'' 2 ''Bs'' ''$1''),
  (''VND'', mkCurrency FIAT ''.'' '','' ''VND'' 0 [CHR 0xE2, CHR 0x82, CHR 0xAB] ''1 $''),
  (''XCD'', mkCurrency FIAT ''.'' '','' ''XCD'' 2 ''$'' ''$1''),
  (''YER'', mkCurrency FIAT ''.'' '','' ''YER'' 2 [CHR 0xEF, CHR 0xB7, CHR 0xBC] ''1 $''),
  (''ZAR'', mkCurrency FIAT ''.'' '','' ''ZAR'' 2 ''R'' ''$1''),
  (''ZMW'', mkCurrency FIAT ''.'' '','' ''ZMW'' 2 ''ZK'' ''$1''),
  (''ZWD'', mkCurrency FIAT ''.'' '','' ''ZWD'' 2 ''Z$'' ''$1''),
  (''BTC'', mkCurrency CRYPTO ''.'' '','' ''BTC'' 8 [CHR 0xE2, CHR 0x82, CHR 0xBF] ''$1''),
  (''XBT'', mkCurrency CRYPTO ''.'' '','' ''XBT'' 8 [CHR 0xE2, CHR 0x82, CHR 0xBF] ''$1''),
  (''???'', mkCurrency UNKNOWN ''.'' '','' ''???'' 2 ''$'' ''$1'')
  ]"

definition initialCurrencies :: "string \<Rightarrow> Currency option" where
  "initialCurrencies = map_of currencyTable"

definition AddCurrency ::
  "globals \<Rightarrow> CurrType \<Rightarrow> string \<Rightarrow> string \<Rightarrow> string \<Rightarrow> string \<Rightarrow> string \<Rightarrow> int \<Rightarrow> globals \<times> Currency" where
  "AddCurrency g t code grapheme template decPoint thousand fraction =
     (let c = \<lparr>Type = t, Code = code, Fraction = fraction, Grapheme = grapheme,
                Template = template, DecPoint = decPoint, Thousand = thousand\<rparr>
      in (g\<lparr>currencies := (currencies g)(code \<mapsto> c)\<rparr>, c))"

definition GetCurrency :: "globals \<Rightarrow> string \<Rightarrow> Currency option" where
  "GetCurrency g code = currencies g code"

definition CurrencyFormatter :: "Currency \<Rightarrow> Formatter" where
  "CurrencyFormatter c =
     \<lparr>fFraction = Fraction c, fDecPoint = DecPoint c, fThousand = Thousand c,
      fGrapheme = Grapheme c, fTemplate = Template c\<rparr>"

definition getDefault :: "Currency \<Rightarrow> Currency" where
  "getDefault c =
     \<lparr>Type = FIAT, Code = Code c, Fraction = 2, Grapheme = Code c, Template = ''1$'',
      DecPoint = ''.'', Thousand = '',''\<rparr>"

definition getUnknownCurrency :: Currency where
  "getUnknownCurrency =
     \<lparr>Type = FIAT, Code = UnknownCurrencyCode, Fraction = 2, Grapheme = ''$'', Template = ''1$'',
      DecPoint = ''.'', Thousand = '',''\<rparr>"

definition getBadCurrency :: "globals \<Rightarrow> Currency" where
  "getBadCurrency g = badCurrency g"

definition get :: "globals \<Rightarrow> Currency \<Rightarrow> Currency" where
  "get g c = (case currencies g (Code c) of Some cur \<Rightarrow> cur | None \<Rightarrow> getDefault c)"

definition equals :: "Currency \<Rightarrow> Currency \<Rightarrow> bool" where
  "equals c oc = (Code c = Code oc)"

section \<open>The decimal engine\<close>

text \<open>
  The amount is a \<^verbatim>\<open>decimal.Decimal\<close> of \<^verbatim>\<open>github.com/shopspring/decimal\<close>, and
  \<^verbatim>\<open>money.go\<close> passes every numeric operation on to it. The library is a dependency, not a
  file of the package; the functions below follow the library of the time the package was
  written (the one whose \<^verbatim>\<open>RoundCash\<close> still lists the interval 15, as the comment
  copied into \<^verbatim>\<open>money.go\<close> does). \<^verbatim>\<open>big.Int\<close>'s \<^verbatim>\<open>Quo\<close>/\<^verbatim>\<open>QuoRem\<close> truncate towards zero,
  its \<^verbatim>\<open>Div\<close>/\<^verbatim>\<open>DivMod\<close> are Euclidean, which for the positive divisors used here is
  Isabelle's \<open>div\<close>/\<open>mod\<close>.
\<close>

definition big_Quo :: "int \<Rightarrow> int \<Rightarrow> int" where
  "big_Quo a b = sgn a * sgn b * (\<bar>a\<bar> div \<bar>b\<bar>)"

definition big_Rem :: "int \<Rightarrow> int \<Rightarrow> int" where
  "big_Rem a b = sgn a * (\<bar>a\<bar> mod \<bar>b\<bar>)"

definition big_Sign :: "int \<Rightarrow> int" where
  "big_Sign a = sgn a"

definition big_Cmp :: "int \<Rightarrow> int \<Rightarrow> int" where
  "big_Cmp a b = (if a < b then - 1 else if a = b then 0 else 1)"

definition big_Int64 :: "int \<Rightarrow> int64" where
  "big_Int64 a = word_of_int a"

definition min32 :: "int32 \<Rightarrow> int32 \<Rightarrow> int32" where
  "min32 x y = (if sint x \<ge> sint y then y else x)"

definition d_New :: "int64 \<Rightarrow> int32 \<Rightarrow> Decimal" where
  "d_New v e = \<lparr>dvalue = sint v, dexp = e\<rparr>"

definition d_NewFromBigInt :: "int \<Rightarrow> int32 \<Rightarrow> Decimal" where
  "d_NewFromBigInt v e = \<lparr>dvalue = v, dexp = e\<rparr>"

text \<open>\<^verbatim>\<open>var Zero = New(0, 1)\<close>\<close>

definition d_Zero :: Decimal where
  "d_Zero = d_New 0 1"

text \<open>\<^verbatim>\<open>decimal.DivisionPrecision\<close>, the library's own default, which the package leaves alone.\<close>

definition d_DivisionPrecision :: int where
  "d_DivisionPrecision = 16"

definition rescale :: "Decimal \<Rightarrow> int32 \<Rightarrow> Decimal" where
  "rescale d e =
     (if dexp d = e then d
      else let diff = nat \<bar>sint e - sint (dexp d)\<bar>;
               expScale = (10::int) ^ diff
           in if sint e > sint (dexp d) then \<lparr>dvalue = big_Quo (dvalue d) expScale, dexp = e\<rparr>
              else if sint e < sint (dexp d) then \<lparr>dvalue = dvalue d * expScale, dexp = e\<rparr>
              else \<lparr>dvalue = dvalue d, dexp = e\<rparr>)"

definition d_Abs :: "Decimal \<Rightarrow> Decimal" where
  "d_Abs d = \<lparr>dvalue = \<bar>dvalue d\<bar>, dexp = dexp d\<rparr>"

definition d_Add :: "Decimal \<Rightarrow> Decimal \<Rightarrow> Decimal" where
  "d_Add d d2 =
     (let baseScale = min32 (dexp d) (dexp d2);
          rd = rescale d baseScale;
          rd2 = rescale d2 baseScale
      in \<lparr>dvalue = dvalue rd + dvalue rd2, dexp = baseScale\<rparr>)"

definition d_Sub :: "Decimal \<Rightarrow> Decimal \<Rightarrow> Decimal" where
  "d_Sub d d2 =
     (let baseScale = min32 (dexp d) (dexp d2);
          rd = rescale d baseScale;
          rd2 = rescale d2 baseScale
      in \<lparr>dvalue = dvalue rd - dvalue rd2, dexp = baseScale\<rparr>)"

definition d_Neg :: "Decimal \<Rightarrow> Decimal" where
  "d_Neg d = \<lparr>dvalue = - dvalue d, dexp = dexp d\<rparr>"

text \<open>\<^verbatim>\<open>Mul\<close> adds the exponents in 64 bits and panics when the sum leaves \<^verbatim>\<open>int32\<close>.\<close>

definition d_Mul :: "Decimal \<Rightarrow> Decimal \<Rightarrow> panic + Decimal" where
  "d_Mul d d2 =
     (let expInt64 = sint (dexp d) + sint (dexp d2)
      in if expInt64 > 2147483647 \<or> expInt64 < - 2147483648 then Inl (ExponentOverflow expInt64)
         else Inr \<lparr>dvalue = dvalue d * dvalue d2, dexp = word_of_int expInt64\<rparr>)"

definition d_Shift :: "Decimal \<Rightarrow> int32 \<Rightarrow> Decimal" where
  "d_Shift d shift = \<lparr>dvalue = dvalue d, dexp = dexp d + shift\<rparr>"

definition d_Cmp :: "Decimal \<Rightarrow> Decimal \<Rightarrow> int" where
  "d_Cmp d d2 =
     (if dexp d = dexp d2 then big_Cmp (dvalue d) (dvalue d2)
      else let baseExp = min32 (dexp d) (dexp d2);
               rd = rescale d baseExp;
               rd2 = rescale d2 baseExp
           in big_Cmp (dvalue rd) (dvalue rd2))"

text \<open>\<^verbatim>\<open>QuoRem\<close>: the difference of the exponents is taken in \<^verbatim>\<open>int32\<close> (it wraps) before it is
  widened, so the library's overflow check sees a value that is always in range.\<close>

definition d_QuoRem :: "Decimal \<Rightarrow> Decimal \<Rightarrow> int32 \<Rightarrow> panic + Decimal \<times> Decimal" where
  "d_QuoRem d d2 precision =
     (if big_Sign (dvalue d2) = 0 then Inl DivisionByZero
      else let scale = - precision;
               e = sint (dexp d - dexp d2 - scale)
           in if e > 2147483647 \<or> e < - 2147483648 then Inl QuoRemOverflow
              else let (aa, bb, scalerest) =
                         (if e < 0 then (dvalue d, dvalue d2 * 10 ^ nat (- e), dexp d)
                          else (dvalue d * 10 ^ nat e, dvalue d2, scale + dexp d2));
                       q = big_Quo aa bb;
                       r = big_Rem aa bb
                   in Inr (\<lparr>dvalue = q, dexp = scale\<rparr>, \<lparr>dvalue = r, dexp = scalerest\<rparr>))"

definition d_DivRound :: "Decimal \<Rightarrow> Decimal \<Rightarrow> int32 \<Rightarrow> panic + Decimal" where
  "d_DivRound d d2 precision =
     (case d_QuoRem d d2 precision of
        Inl p \<Rightarrow> Inl p
      | Inr (q, r) \<Rightarrow>
          let rv2 = \<bar>dvalue r\<bar> * 2;
              r2 = \<lparr>dvalue = rv2, dexp = dexp r + precision\<rparr>;
              c = d_Cmp r2 (d_Abs d2)
          in if c < 0 then Inr q
             else if big_Sign (dvalue d) * big_Sign (dvalue d2) < 0
                  then Inr (d_Sub q (d_New 1 (- precision)))
                  else Inr (d_Add q (d_New 1 (- precision))))"

definition d_Div :: "Decimal \<Rightarrow> Decimal \<Rightarrow> panic + Decimal" where
  "d_Div d d2 = d_DivRound d d2 (word_of_int d_DivisionPrecision)"

definition d_Truncate :: "Decimal \<Rightarrow> int32 \<Rightarrow> Decimal" where
  "d_Truncate d precision =
     (if sint precision \<ge> 0 \<and> sint (- precision) > sint (dexp d) then rescale d (- precision)
      else d)"

definition d_Mod :: "Decimal \<Rightarrow> Decimal \<Rightarrow> panic + Decimal" where
  "d_Mod d d2 =
     (case d_Div d d2 of
        Inl p \<Rightarrow> Inl p
      | Inr dq \<Rightarrow>
          (let quo = d_Truncate dq 0
           in case d_Mul d2 quo of Inl p \<Rightarrow> Inl p | Inr pr \<Rightarrow> Inr (d_Sub d pr)))"

definition d_IntPart :: "Decimal \<Rightarrow> int64" where
  "d_IntPart d = big_Int64 (dvalue (rescale d 0))"

text \<open>\<^verbatim>\<open>Pow\<close> halves the exponent recursively until its integer part is 0; the recursion is not
  structural, so a run that does not return is the value \<open>None\<close>.\<close>

partial_function (option) d_Pow :: "Decimal \<Rightarrow> Decimal \<Rightarrow> (panic + Decimal) option" where
  "d_Pow d d2 =
     (if d_IntPart d2 = 0 then Some (Inr (d_New 1 0))
      else case d_Div d2 (d_New 2 0) of
             Inl p \<Rightarrow> Some (Inl p)
           | Inr half \<Rightarrow>
               Option.bind (d_Pow d half)
                 (\<lambda>res. case res of
                    Inl p \<Rightarrow> Some (Inl p)
                  | Inr temp \<Rightarrow>
                      (case d_Mul temp temp of
                         Inl p \<Rightarrow> Some (Inl p)
                       | Inr sq \<Rightarrow>
                           if big_Rem (sint (d_IntPart d2)) 2 = 0 then Some (Inr sq)
                           else if sint (d_IntPart d2) > 0 then Some (d_Mul sq d)
                           else Some (d_Div sq d))))"

definition d_Round :: "Decimal \<Rightarrow> int32 \<Rightarrow> Decimal" where
  "d_Round d places =
     (let ret = rescale d (- places - 1);
          v = (if big_Sign (dvalue ret) < 0 then dvalue ret - 5 else dvalue ret + 5);
          q = v div 10;
          m = v mod 10;
          e = dexp ret + 1
      in if big_Sign q < 0 \<and> big_Cmp m 0 \<noteq> 0 then \<lparr>dvalue = q + 1, dexp = e\<rparr>
         else \<lparr>dvalue = q, dexp = e\<rparr>)"

definition d_RoundBank :: "Decimal \<Rightarrow> int32 \<Rightarrow> Decimal" where
  "d_RoundBank d places =
     (let round = d_Round d places;
          remainder = d_Abs (d_Sub d round);
          half = d_New 5 (- places - 1)
      in if d_Cmp remainder half = 0 \<and> odd (dvalue round)
         then (if big_Sign (dvalue round) < 0 then round\<lparr>dvalue := dvalue round + 1\<rparr>
               else round\<lparr>dvalue := dvalue round - 1\<rparr>)
         else round)"

text \<open>\<^verbatim>\<open>RoundCash\<close>. The interval selects the factor \<^verbatim>\<open>iVal\<close>; for the interval 15 and a
  negative exponent the library first lowers an amount whose coefficient is a multiple of 5 by
  \<^verbatim>\<open>New(10^-int64(orgExp), orgExp)\<close>, where \<^verbatim>\<open>^\<close> is Go's exclusive or.\<close>

definition fiveDec :: Decimal where
  "fiveDec = d_New 5 0"

definition cashInterval15 :: "Decimal \<Rightarrow> panic + Decimal" where
  "cashInterval15 d =
     (if sint (dexp d) < 0
      then (let orgExp = dexp d;
                dOne = d_New (10 XOR (- (signed orgExp))) orgExp;
                d2 = d\<lparr>dexp := 0\<rparr>
            in case d_Mod d2 fiveDec of
                 Inl p \<Rightarrow> Inl p
               | Inr r \<Rightarrow>
                   if d_Cmp r d_Zero = 0 then Inr (d_Sub (d2\<lparr>dexp := orgExp\<rparr>) dOne)
                   else Inr d)
      else Inr d)"

definition cashFactor :: "Decimal \<Rightarrow> uint8 \<Rightarrow> panic + Decimal \<times> int" where
  "cashFactor d interval =
     (if interval = 5 then Inr (d, 20)
      else if interval = 10 then Inr (d, 10)
      else if interval = 15 then
        (case cashInterval15 d of Inl p \<Rightarrow> Inl p | Inr d' \<Rightarrow> Inr (d', 10))
      else if interval = 25 then Inr (d, 4)
      else if interval = 50 then Inr (d, 2)
      else if interval = 100 then Inr (d, 1)
      else Inl (BadCashInterval interval))"

definition d_RoundCash :: "Decimal \<Rightarrow> uint8 \<Rightarrow> panic + Decimal" where
  "d_RoundCash d0 interval =
     (case cashFactor d0 interval of
        Inl p \<Rightarrow> Inl p
      | Inr (d, iVal) \<Rightarrow>
          (let dVal = \<lparr>dvalue = iVal, dexp = 0\<rparr>
           in case d_Mul d dVal of
                Inl p \<Rightarrow> Inl p
              | Inr pr \<Rightarrow>
                  (case d_Div (d_Round pr 0) dVal of
                     Inl p \<Rightarrow> Inl p
                   | Inr q \<Rightarrow> Inr (d_Truncate q 2))))"

definition d_Floor :: "Decimal \<Rightarrow> Decimal" where
  "d_Floor d =
     (if sint (dexp d) \<ge> 0 then d
      else let ex = (10::int) ^ nat (- sint (dexp d))
           in \<lparr>dvalue = dvalue d div ex, dexp = 0\<rparr>)"

definition d_Ceil :: "Decimal \<Rightarrow> Decimal" where
  "d_Ceil d =
     (if sint (dexp d) \<ge> 0 then d
      else let ex = (10::int) ^ nat (- sint (dexp d));
               z = dvalue d div ex;
               m = dvalue d mod ex
           in if big_Cmp m 0 \<noteq> 0 then \<lparr>dvalue = z + 1, dexp = 0\<rparr> else \<lparr>dvalue = z, dexp = 0\<rparr>)"

definition d_Sign :: "Decimal \<Rightarrow> int" where
  "d_Sign d = big_Sign (dvalue d)"

definition d_Exponent :: "Decimal \<Rightarrow> int32" where
  "d_Exponent d = dexp d"

definition d_Coefficient :: "Decimal \<Rightarrow> int" where
  "d_Coefficient d = dvalue d"

declare d_Pow.simps [code]

subsection \<open>Decimal strings\<close>

text \<open>\<^verbatim>\<open>big.Int.String\<close>: the decimal digits, most significant first, a minus sign before a
  negative number, \<^verbatim>\<open>"0"\<close> for zero.\<close>

definition digitChar :: "nat \<Rightarrow> char" where
  "digitChar n = ''0123456789'' ! n"

fun natDigits :: "nat \<Rightarrow> string" where
  "natDigits n = (if n < 10 then [digitChar n] else natDigits (n div 10) @ [digitChar (n mod 10)])"

definition big_String :: "int \<Rightarrow> string" where
  "big_String x = (if x < 0 then ''-'' @ natDigits (nat (- x)) else natDigits (nat x))"

text \<open>The loop of \<^verbatim>\<open>string(trimTrailingZeros)\<close> that walks \<^verbatim>\<open>i\<close> down from the last index while
  the byte is \<^verbatim>\<open>'0'\<close>; the argument is \<^verbatim>\<open>i + 1\<close>, the result the length that is kept.\<close>

primrec trimTrailingZeros :: "string \<Rightarrow> nat \<Rightarrow> nat" where
  "trimTrailingZeros s 0 = 0"
| "trimTrailingZeros s (Suc i) = (if s ! i \<noteq> CHR ''0'' then Suc i else trimTrailingZeros s i)"

definition d_string :: "Decimal \<Rightarrow> bool \<Rightarrow> string" where
  "d_string d trim =
     (if sint (dexp d) \<ge> 0 then big_String (dvalue (rescale d 0))
      else let str = big_String \<bar>dvalue d\<bar>;
               dExpInt = sint (dexp d);
               (intPart, fractionalPart) =
                 (if int (length str) > - dExpInt
                  then (take (nat (int (length str) + dExpInt)) str,
                        drop (nat (int (length str) + dExpInt)) str)
                  else (''0'', replicate (nat (- dExpInt - int (length str))) CHR ''0'' @ str));
               fractionalPart' =
                 (if trim then take (trimTrailingZeros fractionalPart (length fractionalPart)) fractionalPart
                  else fractionalPart);
               number = (if length fractionalPart' > 0 then intPart @ ''.'' @ fractionalPart' else intPart)
           in if big_Sign (dvalue d) < 0 then ''-'' @ number else number)"

definition d_String :: "Decimal \<Rightarrow> string" where
  "d_String d = d_string d True"

definition d_StringFixed :: "Decimal \<Rightarrow> int32 \<Rightarrow> string" where
  "d_StringFixed d places = d_string (d_Round d places) False"

definition d_StringFixedBank :: "Decimal \<Rightarrow> int32 \<Rightarrow> string" where
  "d_StringFixedBank d places = d_string (d_RoundBank d places) False"

definition d_StringFixedCash :: "Decimal \<Rightarrow> uint8 \<Rightarrow> panic + string" where
  "d_StringFixedCash d interval =
     (case d_RoundCash d interval of Inl p \<Rightarrow> Inl p | Inr r \<Rightarrow> Inr (d_string r False))"

subsection \<open>Parsing a decimal\<close>

text \<open>\<^verbatim>\<open>big.Int.SetString(s, 10)\<close> and \<^verbatim>\<open>strconv.ParseInt(s, 10, 32)\<close> read an optional sign and
  then one or more decimal digits, and nothing else.\<close>

definition digitVal :: "char \<Rightarrow> nat option" where
  "digitVal c =
     (let n = (of_char c :: nat)
      in if of_char CHR ''0'' \<le> n \<and> n \<le> of_char CHR ''9'' then Some (n - of_char CHR ''0'') else None)"

fun parseDigitsAcc :: "nat \<Rightarrow> string \<Rightarrow> nat option" where
  "parseDigitsAcc acc [] = Some acc"
| "parseDigitsAcc acc (c # cs) =
     (case digitVal c of None \<Rightarrow> None | Some v \<Rightarrow> parseDigitsAcc (acc * 10 + v) cs)"

definition parseDigits :: "string \<Rightarrow> nat option" where
  "parseDigits s = (if s = [] then None else parseDigitsAcc 0 s)"

definition big_SetString :: "string \<Rightarrow> int option" where
  "big_SetString s =
     (case s of
        [] \<Rightarrow> None
      | c # cs \<Rightarrow>
          if c = CHR ''-'' then map_option (\<lambda>n. - int n) (parseDigits cs)
          else if c = CHR ''+'' then map_option int (parseDigits cs)
          else map_option int (parseDigits s))"

datatype numError = ErrSyntax | ErrRange

definition strconv_ParseInt32 :: "string \<Rightarrow> numError + int" where
  "strconv_ParseInt32 s =
     (case big_SetString s of
        None \<Rightarrow> Inl ErrSyntax
      | Some n \<Rightarrow> if n > 2147483647 \<or> n < - 2147483648 then Inl ErrRange else Inr n)"

text \<open>\<^verbatim>\<open>strings.IndexAny(value, "Ee")\<close>: the first index holding one of the two bytes, or -1.\<close>

fun indexAnyEe :: "string \<Rightarrow> int" where
  "indexAnyEe [] = - 1"
| "indexAnyEe (c # cs) =
     (if c = CHR ''E'' \<or> c = CHR ''e'' then 0
      else let i = indexAnyEe cs in if i = - 1 then - 1 else i + 1)"

text \<open>\<^verbatim>\<open>strings.Split(s, sep)\<close> for a separator of one byte, which is how the library and the
  formatter call it (\<^verbatim>\<open>"."\<close>): the pieces between the separators, one more than there are
  separators.\<close>

fun strings_Split :: "string \<Rightarrow> char \<Rightarrow> string list" where
  "strings_Split [] sep = [[]]"
| "strings_Split (c # cs) sep =
     (if c = sep then [] # strings_Split cs sep
      else case strings_Split cs sep of
             p # ps \<Rightarrow> (c # p) # ps
           | [] \<Rightarrow> [[c]])"

text \<open>\<^verbatim>\<open>strings.TrimRight(s, "0")\<close>\<close>

definition trimRightZeros :: "string \<Rightarrow> string" where
  "trimRightZeros s = rev (dropWhile (\<lambda>c. c = CHR ''0'') (rev s))"

definition d_NewFromString :: "string \<Rightarrow> error + Decimal" where
  "d_NewFromString originalInput =
     (let eIndex = indexAnyEe originalInput;
          parsedExp =
            (if eIndex \<noteq> - 1
             then (case strconv_ParseInt32 (drop (nat (eIndex + 1)) originalInput) of
                     Inl ErrRange \<Rightarrow> Inl (FractionalPartTooLong originalInput)
                   | Inl ErrSyntax \<Rightarrow> Inl (ExponentNotNumeric originalInput)
                   | Inr expInt \<Rightarrow> Inr (take (nat eIndex) originalInput, expInt))
             else Inr (originalInput, 0))
      in case parsedExp of
           Inl err \<Rightarrow> Inl err
         | Inr (val, exp0) \<Rightarrow>
             (let parts = strings_Split val CHR ''.'';
                  split =
                    (case parts of
                       [p] \<Rightarrow> Inr (val, exp0)
                     | [p0, p1] \<Rightarrow>
                         (let decimalPart = trimRightZeros p1
                          in Inr (p0 @ decimalPart, exp0 + (- int (length decimalPart))))
                     | _ \<Rightarrow> Inl (TooManyDots val))
              in case split of
                   Inl err \<Rightarrow> Inl err
                 | Inr (intString, ex) \<Rightarrow>
                     (case big_SetString intString of
                        None \<Rightarrow> Inl (CannotConvert val)
                      | Some dValue \<Rightarrow>
                          if ex < - 2147483648 \<or> ex > 2147483647
                          then Inl (FractionalPartTooLong originalInput)
                          else Inr \<lparr>dvalue = dValue, dexp = word_of_int ex\<rparr>)))"

section \<open>Money\<close>

definition New :: "globals \<Rightarrow> string \<Rightarrow> int64 \<Rightarrow> int32 \<Rightarrow> Money \<times> error option" where
  "New g cur v e =
     (case GetCurrency g cur of
        None \<Rightarrow> (\<lparr>amount = d_Zero, currency = Some (getBadCurrency g)\<rparr>,
                 Some (CurrencyNotSupported cur))
      | Some c \<Rightarrow> (\<lparr>amount = d_New v e, currency = Some c\<rparr>, None))"

definition NewFromBigInt :: "globals \<Rightarrow> string \<Rightarrow> int \<Rightarrow> int32 \<Rightarrow> Money \<times> error option" where
  "NewFromBigInt g cur v e =
     (case GetCurrency g cur of
        None \<Rightarrow> (\<lparr>amount = d_Zero, currency = Some (getBadCurrency g)\<rparr>,
                 Some (CurrencyNotSupported cur))
      | Some c \<Rightarrow> (\<lparr>amount = d_NewFromBigInt v e, currency = Some c\<rparr>, None))"

definition NewFromString :: "globals \<Rightarrow> string \<Rightarrow> string \<Rightarrow> Money \<times> error option" where
  "NewFromString g cur v =
     (case GetCurrency g cur of
        None \<Rightarrow> (\<lparr>amount = d_Zero, currency = Some (getBadCurrency g)\<rparr>,
                 Some (CurrencyNotSupported cur))
      | Some c \<Rightarrow>
          (case d_NewFromString v of
             Inl errr \<Rightarrow> (\<lparr>amount = d_Zero, currency = Some (getBadCurrency g)\<rparr>, Some errr)
           | Inr d \<Rightarrow> (\<lparr>amount = d, currency = Some c\<rparr>, None)))"

text \<open>\<^verbatim>\<open>ensureInitialized\<close> has a pointer receiver and is called on the method's own copy of
  the receiver; the model returns the copy.\<close>

definition ensureInitialized :: "Money \<Rightarrow> Money" where
  "ensureInitialized m =
     (if currency m = None then m\<lparr>currency := Some getUnknownCurrency\<rparr> else m)"

text \<open>\<^verbatim>\<open>UpdateCurrency\<close> has a pointer receiver: the result holds the receiver after the call
  beside the returned error. It reads \<^verbatim>\<open>m.currency.Code\<close> at once, which is a nil
  dereference when the currency was never set.\<close>

definition UpdateCurrency :: "globals \<Rightarrow> Money \<Rightarrow> string \<Rightarrow> panic + Money \<times> error option" where
  "UpdateCurrency g m newCurr =
     (case currency m of
        None \<Rightarrow> Inl NilDereference
      | Some mc \<Rightarrow>
          if Code mc \<noteq> UnknownCurrencyCode
          then Inr (m, Some (CurrencyAlreadySet newCurr (Code mc)))
          else (case GetCurrency g newCurr of
                  None \<Rightarrow> Inr (m, Some (CurrencyNotSupported newCurr))
                | Some c \<Rightarrow> Inr (m\<lparr>currency := Some c\<rparr>, None)))"

text \<open>The binary operations share one shape: both operands are initialised, the currencies
  are compared by code, and a mismatch panics before the amounts are touched.\<close>

definition checkCurrencies :: "Money \<Rightarrow> Money \<Rightarrow> panic + Money \<times> Money" where
  "checkCurrencies m0 m20 =
     (let m = ensureInitialized m0;
          m2 = ensureInitialized m20
      in case (currency m, currency m2) of
           (Some c, Some c2) \<Rightarrow>
             if \<not> equals c c2 then Inl (CurrencyMismatch (Code c) (Code c2)) else Inr (m, m2)
         | _ \<Rightarrow> Inl NilDereference)"

definition Abs :: "Money \<Rightarrow> Money" where
  "Abs m0 = (let m = ensureInitialized m0 in \<lparr>amount = d_Abs (amount m), currency = currency m\<rparr>)"

definition Add :: "Money \<Rightarrow> Money \<Rightarrow> panic + Money" where
  "Add m0 m20 =
     (case checkCurrencies m0 m20 of
        Inl p \<Rightarrow> Inl p
      | Inr (m, m2) \<Rightarrow> Inr \<lparr>amount = d_Add (amount m) (amount m2), currency = currency m\<rparr>)"

definition Sub :: "Money \<Rightarrow> Money \<Rightarrow> panic + Money" where
  "Sub m0 m20 =
     (case checkCurrencies m0 m20 of
        Inl p \<Rightarrow> Inl p
      | Inr (m, m2) \<Rightarrow>
          (let m' = ensureInitialized m
           in Inr \<lparr>amount = d_Sub (amount m') (amount m2), currency = currency m'\<rparr>))"

definition Neg :: "Money \<Rightarrow> Money" where
  "Neg m0 = (let m = ensureInitialized m0 in \<lparr>amount = d_Neg (amount m), currency = currency m\<rparr>)"

definition Mul :: "Money \<Rightarrow> Money \<Rightarrow> panic + Money" where
  "Mul m0 m20 =
     (case checkCurrencies m0 m20 of
        Inl p \<Rightarrow> Inl p
      | Inr (m, m2) \<Rightarrow>
          (case d_Mul (amount m) (amount m2) of
             Inl p \<Rightarrow> Inl p
           | Inr a \<Rightarrow> Inr \<lparr>amount = a, currency = currency m\<rparr>))"

definition Shift :: "Money \<Rightarrow> int32 \<Rightarrow> Money" where
  "Shift m0 shift =
     (let m = ensureInitialized m0 in \<lparr>amount = d_Shift (amount m) shift, currency = currency m\<rparr>)"

definition DivRound :: "Money \<Rightarrow> Money \<Rightarrow> int32 \<Rightarrow> panic + Money" where
  "DivRound m0 m20 precision =
     (case checkCurrencies m0 m20 of
        Inl p \<Rightarrow> Inl p
      | Inr (m, m2) \<Rightarrow>
          (case d_DivRound (amount m) (amount m2) precision of
             Inl p \<Rightarrow> Inl p
           | Inr a \<Rightarrow> Inr \<lparr>amount = a, currency = currency m\<rparr>))"

definition Div :: "globals \<Rightarrow> Money \<Rightarrow> Money \<Rightarrow> panic + Money" where
  "Div g m m2 = DivRound m m2 (word_of_int (DivisionPrecision g))"

definition QuoRem :: "Money \<Rightarrow> Money \<Rightarrow> int32 \<Rightarrow> panic + Money \<times> Money" where
  "QuoRem m0 m20 precision =
     (case checkCurrencies m0 m20 of
        Inl p \<Rightarrow> Inl p
      | Inr (m, m2) \<Rightarrow>
          (case d_QuoRem (amount m) (amount m2) precision of
             Inl p \<Rightarrow> Inl p
           | Inr (d1, d2) \<Rightarrow>
               Inr (\<lparr>amount = d1, currency = currency m\<rparr>, \<lparr>amount = d2, currency = currency m2\<rparr>)))"

definition Mod :: "Money \<Rightarrow> Money \<Rightarrow> panic + Money" where
  "Mod m0 m20 =
     (case checkCurrencies m0 m20 of
        Inl p \<Rightarrow> Inl p
      | Inr (m, m2) \<Rightarrow>
          (case d_Mod (amount m) (amount m2) of
             Inl p \<Rightarrow> Inl p
           | Inr a \<Rightarrow> Inr \<lparr>amount = a, currency = currency m\<rparr>))"

text \<open>\<^verbatim>\<open>Pow\<close>; \<open>None\<close> when the library's recursion does not return.\<close>

definition Pow_m :: "Money \<Rightarrow> Money \<Rightarrow> (panic + Money) option" where
  "Pow_m m0 m20 =
     (case checkCurrencies m0 m20 of
        Inl p \<Rightarrow> Some (Inl p)
      | Inr (m, m2) \<Rightarrow>
          (case d_Pow (amount m) (amount m2) of
             None \<Rightarrow> None
           | Some (Inl p) \<Rightarrow> Some (Inl p)
           | Some (Inr a) \<Rightarrow> Some (Inr \<lparr>amount = a, currency = currency m\<rparr>)))"

definition Cmp :: "Money \<Rightarrow> Money \<Rightarrow> panic + int" where
  "Cmp m0 m20 =
     (case checkCurrencies m0 m20 of
        Inl p \<Rightarrow> Inl p
      | Inr (m, m2) \<Rightarrow> Inr (d_Cmp (amount m) (amount m2)))"

definition Equal :: "Money \<Rightarrow> Money \<Rightarrow> panic + bool" where
  "Equal m m2 = (case Cmp m m2 of Inl p \<Rightarrow> Inl p | Inr c \<Rightarrow> Inr (c = 0))"

definition Sign :: "Money \<Rightarrow> int" where
  "Sign m0 = (let m = ensureInitialized m0 in d_Sign (amount m))"

definition Exponent :: "Money \<Rightarrow> int32" where
  "Exponent m0 = (let m = ensureInitialized m0 in d_Exponent (amount m))"

definition Coefficient :: "Money \<Rightarrow> int" where
  "Coefficient m0 = (let m = ensureInitialized m0 in d_Coefficient (amount m))"

definition String :: "Money \<Rightarrow> string" where
  "String m0 = (let m = ensureInitialized m0 in d_String (amount m))"

definition Round :: "Money \<Rightarrow> int32 \<Rightarrow> Money" where
  "Round m0 places =
     (let m = ensureInitialized m0 in \<lparr>amount = d_Round (amount m) places, currency = currency m\<rparr>)"

definition RoundBank :: "Money \<Rightarrow> int32 \<Rightarrow> Money" where
  "RoundBank m0 places =
     (let m = ensureInitialized m0
      in \<lparr>amount = d_RoundBank (amount m) places, currency = currency m\<rparr>)"

definition RoundCash :: "Money \<Rightarrow> uint8 \<Rightarrow> panic + Money" where
  "RoundCash m0 interval =
     (let m = ensureInitialized m0
      in case d_RoundCash (amount m) interval of
           Inl p \<Rightarrow> Inl p
         | Inr a \<Rightarrow> Inr \<lparr>amount = a, currency = currency m\<rparr>)"

definition Floor :: "Money \<Rightarrow> Money" where
  "Floor m0 = (let m = ensureInitialized m0 in \<lparr>amount = d_Floor (amount m), currency = currency m\<rparr>)"

definition Ceil :: "Money \<Rightarrow> Money" where
  "Ceil m0 = (let m = ensureInitialized m0 in \<lparr>amount = d_Ceil (amount m), currency = currency m\<rparr>)"

definition Truncate :: "Money \<Rightarrow> int32 \<Rightarrow> Money" where
  "Truncate m0 precision =
     (let m = ensureInitialized m0
      in \<lparr>amount = d_Truncate (amount m) precision, currency = currency m\<rparr>)"

text \<open>The aggregate helpers. \<^verbatim>\<open>Sum\<close> folds \<^verbatim>\<open>Add\<close> over the rest; \<^verbatim>\<open>Avg\<close> reads
  \<^verbatim>\<open>first.currency.Code\<close> before anything initialises \<^verbatim>\<open>first\<close>.\<close>

fun Sum_m :: "Money \<Rightarrow> Money list \<Rightarrow> panic + Money" where
  "Sum_m tot [] = Inr tot"
| "Sum_m tot (item # rest) =
     (case Add tot item of Inl p \<Rightarrow> Inl p | Inr t \<Rightarrow> Sum_m t rest)"

definition Avg :: "globals \<Rightarrow> Money \<Rightarrow> Money list \<Rightarrow> panic + Money" where
  "Avg g first rest =
     (case currency first of
        None \<Rightarrow> Inl NilDereference
      | Some c \<Rightarrow>
          (let count = fst (New g (Code c) (word_of_nat (length rest + 1)) 0)
           in case Sum_m first rest of
                Inl p \<Rightarrow> Inl p
              | Inr s \<Rightarrow> Div g s count))"

section \<open>Formatter\<close>

text \<open>\<^verbatim>\<open>strings.Replace(s, old, new, 1)\<close>: the first occurrence of \<^verbatim>\<open>old\<close> is replaced.\<close>

fun strings_Replace1 :: "string \<Rightarrow> string \<Rightarrow> string \<Rightarrow> string" where
  "strings_Replace1 [] old new = (if old = [] then new else [])"
| "strings_Replace1 (c # cs) old new =
     (if take (length old) (c # cs) = old then new @ drop (length old) (c # cs)
      else c # strings_Replace1 cs old new)"

text \<open>\<^verbatim>\<open>strings.TrimSpace\<close> on the ASCII white space; the Unicode spaces beyond ASCII, which
  are several bytes long, are left in place.\<close>

definition isSpace :: "char \<Rightarrow> bool" where
  "isSpace c = (c = CHR '' '' \<or> c = CHR 0x09 \<or> c = CHR 0x0A \<or> c = CHR 0x0B \<or> c = CHR 0x0C \<or> c = CHR 0x0D)"

definition strings_TrimSpace :: "string \<Rightarrow> string" where
  "strings_TrimSpace s = rev (dropWhile isSpace (rev (dropWhile isSpace s)))"

text \<open>The loop \<^verbatim>\<open>for i := len(intPart) - 3; i > 0; i -= 3\<close> that inserts the separator.\<close>

function thousandsLoop :: "string \<Rightarrow> string \<Rightarrow> int \<Rightarrow> string" where
  "thousandsLoop thousand intPart i =
     (if i > 0
      then thousandsLoop thousand (take (nat i) intPart @ thousand @ drop (nat i) intPart) (i - 3)
      else intPart)"
  by pat_completeness auto
termination
  by (relation "measure (\<lambda>(thousand, intPart, i). nat i)") auto

definition formatWithOptions ::
  "Formatter \<Rightarrow> Decimal \<Rightarrow> bool \<Rightarrow> bool \<Rightarrow> bool \<Rightarrow> panic + string" where
  "formatWithOptions f amt noThousands noCurrencyGrapheme negsInBrackets =
     (let numBits = strings_Split (d_StringFixedBank (d_Abs amt) (word_of_int (fFraction f))) CHR ''.''
      in case numBits of
           [] \<Rightarrow> Inl IndexOutOfRange
         | intPart0 # others \<Rightarrow>
             (let fractionalPart = (case others of [] \<Rightarrow> '''' | fp # _ \<Rightarrow> fp);
                  intPart1 =
                    (if \<not> noThousands \<and> fThousand f \<noteq> ''''
                     then thousandsLoop (fThousand f) intPart0 (int (length intPart0) - 3)
                     else intPart0);
                  intPart2 =
                    (if length fractionalPart > 0 then intPart1 @ fDecPoint f @ fractionalPart
                     else intPart1);
                  intPart3 = strings_Replace1 (fTemplate f) ''1'' intPart2;
                  intPart4 =
                    (if noCurrencyGrapheme then strings_TrimSpace (strings_Replace1 intPart3 ''$'' '''')
                     else strings_Replace1 intPart3 ''$'' (fGrapheme f))
              in if d_Sign amt < 0
                 then (if negsInBrackets then Inr (''('' @ intPart4 @ '')'') else Inr (''-'' @ intPart4))
                 else Inr intPart4))"

definition FormatAccounting :: "Formatter \<Rightarrow> Decimal \<Rightarrow> panic + string" where
  "FormatAccounting f amt = formatWithOptions f amt True True True"

definition FormatCurrency :: "Formatter \<Rightarrow> Decimal \<Rightarrow> panic + string" where
  "FormatCurrency f amt = formatWithOptions f amt False False False"

definition NewFormatter :: "int \<Rightarrow> string \<Rightarrow> string \<Rightarrow> string \<Rightarrow> string \<Rightarrow> Formatter" where
  "NewFormatter fraction decpoint thousand grapheme template =
     \<lparr>fFraction = fraction, fDecPoint = decpoint, fThousand = thousand,
      fGrapheme = grapheme, fTemplate = template\<rparr>"

definition FormattedStringBank :: "Money \<Rightarrow> panic + string" where
  "FormattedStringBank m0 =
     (let m = ensureInitialized m0
      in case currency m of
           None \<Rightarrow> Inl NilDereference
         | Some c \<Rightarrow> FormatCurrency (CurrencyFormatter c) (amount m))"

definition FormattedStringAccounting :: "Money \<Rightarrow> panic + string" where
  "FormattedStringAccounting m0 =
     (let m = ensureInitialized m0
      in case currency m of
           None \<Rightarrow> Inl NilDereference
         | Some c \<Rightarrow> FormatAccounting (CurrencyFormatter c) (amount m))"

definition FormattedStringFixedCash :: "Money \<Rightarrow> uint8 \<Rightarrow> panic + string" where
  "FormattedStringFixedCash m0 interval =
     (let m = ensureInitialized m0
      in case currency m of
           None \<Rightarrow> Inl NilDereference
         | Some c \<Rightarrow>
             (case RoundCash m interval of
                Inl p \<Rightarrow> Inl p
              | Inr r \<Rightarrow> FormatCurrency (CurrencyFormatter c) (amount r)))"

section \<open>Binary and text forms\<close>

text \<open>\<^verbatim>\<open>[]byte(s)\<close> and \<^verbatim>\<open>string(b)\<close> keep the bytes.\<close>

definition bytesOfString :: "string \<Rightarrow> byte list" where
  "bytesOfString s = map of_char s"

definition stringOfBytes :: "byte list \<Rightarrow> string" where
  "stringOfBytes b = map (\<lambda>x. char_of (unat x)) b"

text \<open>\<^verbatim>\<open>binary.BigEndian.PutUint32\<close> into a fresh slice of 4 bytes, and \<^verbatim>\<open>Uint32\<close>, which
  needs 4 bytes.\<close>

definition BigEndian_PutUint32 :: "32 word \<Rightarrow> byte list" where
  "BigEndian_PutUint32 v =
     [ucast (drop_bit 24 v), ucast (drop_bit 16 v), ucast (drop_bit 8 v), ucast v]"

definition BigEndian_Uint32 :: "byte list \<Rightarrow> panic + 32 word" where
  "BigEndian_Uint32 b =
     (case b of
        b0 # b1 # b2 # b3 # _ \<Rightarrow>
          Inr (ucast b3 OR push_bit 8 (ucast b2) OR push_bit 16 (ucast b1) OR push_bit 24 (ucast b0))
      | _ \<Rightarrow> Inl IndexOutOfRange)"

text \<open>\<^verbatim>\<open>big.Int.GobEncode\<close>: one byte holding the version 1 shifted left and the sign bit, then
  the magnitude in big-endian bytes without leading zeros. \<^verbatim>\<open>GobDecode\<close> reads an empty
  buffer as 0 and refuses another version.\<close>

definition intGobVersion :: byte where
  "intGobVersion = 1"

fun natBytes :: "nat \<Rightarrow> byte list" where
  "natBytes n = (if n = 0 then [] else natBytes (n div 256) @ [of_nat (n mod 256)])"

definition setBytes :: "byte list \<Rightarrow> nat" where
  "setBytes buf = foldl (\<lambda>a b. a * 256 + unat b) 0 buf"

definition big_GobEncode :: "int \<Rightarrow> byte list" where
  "big_GobEncode x =
     (let b = push_bit 1 intGobVersion
      in (if x < 0 then b OR 1 else b) # natBytes (nat \<bar>x\<bar>))"

definition big_GobDecode :: "byte list \<Rightarrow> error + int" where
  "big_GobDecode buf =
     (case buf of
        [] \<Rightarrow> Inr 0
      | b # rest \<Rightarrow>
          if drop_bit 1 b \<noteq> intGobVersion then Inl (GobVersionNotSupported (drop_bit 1 b))
          else if b AND 1 \<noteq> 0 then Inr (- int (setBytes rest))
          else Inr (int (setBytes rest)))"

text \<open>\<^verbatim>\<open>UnmarshalBinary\<close> has a pointer receiver: the result holds the receiver after the call
  beside the returned error. The error of \<^verbatim>\<open>NewFromBigInt\<close> is dropped (\<^verbatim>\<open>mo, _ = ...\<close>).\<close>

definition UnmarshalBinary :: "globals \<Rightarrow> Money \<Rightarrow> byte list \<Rightarrow> panic + Money \<times> error option" where
  "UnmarshalBinary g m data =
     (let ld = length data
      in if ld < 8 then Inr (m, Some (NotEnoughData ld))
         else let cur = stringOfBytes (take 3 data)
              in case BigEndian_Uint32 (take 4 (drop 3 data)) of
                   Inl p \<Rightarrow> Inl p
                 | Inr ex \<Rightarrow>
                     (case big_GobDecode (drop 7 data) of
                        Inl err \<Rightarrow> Inr (m, Some err)
                      | Inr v \<Rightarrow> Inr (fst (NewFromBigInt g cur v ex), None)))"

text \<open>\<^verbatim>\<open>MarshalBinary\<close> reads \<^verbatim>\<open>m.currency.Code\<close> in its first statement, before any call of
  \<^verbatim>\<open>ensureInitialized\<close>.\<close>

definition MarshalBinary :: "Money \<Rightarrow> panic + byte list \<times> error option" where
  "MarshalBinary m =
     (case currency m of
        None \<Rightarrow> Inl NilDereference
      | Some c \<Rightarrow>
          (let b1 = bytesOfString (Code c);
               b2 = BigEndian_PutUint32 (Exponent m);
               b1' = b1 @ b2;
               b3 = big_GobEncode (Coefficient m)
           in Inr (b1' @ b3, None)))"

definition GobEncode :: "Money \<Rightarrow> panic + byte list \<times> error option" where
  "GobEncode m = MarshalBinary m"

definition GobDecode :: "globals \<Rightarrow> Money \<Rightarrow> byte list \<Rightarrow> panic + Money \<times> error option" where
  "GobDecode g m data = UnmarshalBinary g m data"

text \<open>\<^verbatim>\<open>UnmarshalText\<close> stores the result of \<^verbatim>\<open>NewFromString\<close> in the receiver before it
  looks at the error.\<close>

definition UnmarshalText :: "globals \<Rightarrow> Money \<Rightarrow> byte list \<Rightarrow> Money \<times> error option" where
  "UnmarshalText g d text =
     (let str = stringOfBytes text;
          (dec, err) = NewFromString g UnknownCurrencyCode str
      in case err of
           Some _ \<Rightarrow> (dec, Some (ErrorDecodingString str))
         | None \<Rightarrow> (dec, None))"

definition MarshalText :: "Money \<Rightarrow> byte list \<times> error option" where
  "MarshalText d = (bytesOfString (String d), None)"

section \<open>Concrete environment\<close>

text \<open>Modelled from the spec: \<^verbatim>\<open>getBadCurrency\<close> is missing from the source files. The spec
  speaks of a sentinel "bad currency" marker carried by the result of a failed constructor,
  beside the "unknown" currency with the code \<^verbatim>\<open>"???"\<close>; the evaluations below use a marker
  with a code of its own.\<close>

definition badCurrencyMarker :: Currency where
  "badCurrencyMarker =
     \<lparr>Type = UNKNOWN, Code = ''BAD'', Fraction = 2, Grapheme = ''$'', Template = ''1$'',
      DecPoint = ''.'', Thousand = '',''\<rparr>"

text \<open>The package-level variables as the package initialises them.\<close>

definition initialGlobals :: globals where
  "initialGlobals =
     \<lparr>currencies = initialCurrencies, DivisionPrecision = 20, badCurrency = badCurrencyMarker\<rparr>"

text \<open>Every key of the registry is the code of its record: the literal is written so, and
  \<^verbatim>\<open>AddCurrency\<close> stores a record under its own code.\<close>

definition registryKeyed :: "globals \<Rightarrow> bool" where
  "registryKeyed g = (\<forall>k c. currencies g k = Some c \<longrightarrow> Code c = k)"

section \<open>Vocabulary of the properties\<close>

text \<open>The zero value \<^verbatim>\<open>Money{}\<close>: a nil coefficient, exponent 0 and a nil currency.\<close>

definition zeroValueMoney :: Money where
  "zeroValueMoney = \<lparr>amount = \<lparr>dvalue = 0, dexp = 0\<rparr>, currency = None\<rparr>"

text \<open>The code under which a binary operation compares an operand: the code of its currency,
  or that of the unknown currency when the currency was never set.\<close>

definition resolvedCode :: "Money \<Rightarrow> string" where
  "resolvedCode m = (case currency m of None \<Rightarrow> Code getUnknownCurrency | Some c \<Rightarrow> Code c)"

definition currencyCode :: "Money \<Rightarrow> string option" where
  "currencyCode m = map_option Code (currency m)"

text \<open>What a binary operation returns once the currency check has passed: the outcome of the
  decimal engine, tagged with the currency of the initialised receiver.\<close>

definition tagged :: "Money \<Rightarrow> panic + Decimal \<Rightarrow> panic + Money" where
  "tagged m r =
     (case r of
        Inl p \<Rightarrow> Inl p
      | Inr a \<Rightarrow> Inr \<lparr>amount = a, currency = currency (ensureInitialized m)\<rparr>)"

text \<open>The integer nearest to \<open>v / D\<close>, a tie going away from zero; the coefficient that
  \<^verbatim>\<open>Round\<close> is shown to compute.\<close>

definition roundHalfAway :: "int \<Rightarrow> int \<Rightarrow> int" where
  "roundHalfAway v D = sgn v * ((2 * \<bar>v\<bar> + D) div (2 * D))"

section \<open>Registry lookups and the currency check\<close>

lemma GetCurrency_USD:
  "GetCurrency initialGlobals ''USD'' = Some (mkCurrency FIAT ''.'' '','' ''USD'' 2 ''$'' ''$1'')"
  by (simp add: GetCurrency_def initialGlobals_def initialCurrencies_def currencyTable_def)

lemma GetCurrency_EUR:
  "GetCurrency initialGlobals ''EUR'' =
   Some (mkCurrency FIAT ''.'' '','' ''EUR'' 2 [CHR 0xE2, CHR 0x82, CHR 0xAC] ''$1'')"
  by (simp add: GetCurrency_def initialGlobals_def initialCurrencies_def currencyTable_def)


lemma GetCurrency_XYZ: "GetCurrency initialGlobals ''XYZ'' = None"
  by (simp add: GetCurrency_def initialGlobals_def initialCurrencies_def currencyTable_def)

lemma New_USD:
  "fst (New initialGlobals ''USD'' v e) =
   \<lparr>amount = d_New v e, currency = Some (mkCurrency FIAT ''.'' '','' ''USD'' 2 ''$'' ''$1'')\<rparr>"
  by (simp add: New_def GetCurrency_USD)

lemma New_EUR:
  "fst (New initialGlobals ''EUR'' v e) =
   \<lparr>amount = d_New v e,
    currency = Some (mkCurrency FIAT ''.'' '','' ''EUR'' 2 [CHR 0xE2, CHR 0x82, CHR 0xAC] ''$1'')\<rparr>"
  by (simp add: New_def GetCurrency_EUR)


lemma currency_ensureInitialized:
  "currency (ensureInitialized m) =
   Some (case currency m of None \<Rightarrow> getUnknownCurrency | Some c \<Rightarrow> c)"
  by (simp add: ensureInitialized_def split: option.splits)

lemma amount_ensureInitialized: "amount (ensureInitialized m) = amount m"
  by (simp add: ensureInitialized_def)

lemma ensureInitialized_idem: "ensureInitialized (ensureInitialized m) = ensureInitialized m"
  by (simp add: ensureInitialized_def)

lemma ensureInitialized_Some: "currency m = Some c \<Longrightarrow> ensureInitialized m = m"
  by (simp add: ensureInitialized_def)

lemma resolvedCode_ensureInitialized:
  "currencyCode (ensureInitialized m) = Some (resolvedCode m)"
  by (simp add: currencyCode_def resolvedCode_def currency_ensureInitialized split: option.splits)

lemma checkCurrencies_mismatch:
  "resolvedCode m \<noteq> resolvedCode m2 \<Longrightarrow>
   checkCurrencies m m2 = Inl (CurrencyMismatch (resolvedCode m) (resolvedCode m2))"
  by (simp add: checkCurrencies_def Let_def currency_ensureInitialized resolvedCode_def equals_def
      split: option.splits)

lemma checkCurrencies_match:
  "resolvedCode m = resolvedCode m2 \<Longrightarrow>
   checkCurrencies m m2 = Inr (ensureInitialized m, ensureInitialized m2)"
  by (simp add: checkCurrencies_def Let_def currency_ensureInitialized resolvedCode_def equals_def
      split: option.splits)

lemma checkCurrencies_cases:
  "checkCurrencies m m2 =
   (if resolvedCode m = resolvedCode m2 then Inr (ensureInitialized m, ensureInitialized m2)
    else Inl (CurrencyMismatch (resolvedCode m) (resolvedCode m2)))"
  by (simp add: checkCurrencies_mismatch checkCurrencies_match)

text \<open>Each binary operation is the currency check followed by the engine's operation.\<close>

lemma Add_cases:
  "Add m m2 =
   (if resolvedCode m = resolvedCode m2 then tagged m (Inr (d_Add (amount m) (amount m2)))
    else Inl (CurrencyMismatch (resolvedCode m) (resolvedCode m2)))"
  by (simp add: Add_def checkCurrencies_cases tagged_def amount_ensureInitialized)

lemma Sub_cases:
  "Sub m m2 =
   (if resolvedCode m = resolvedCode m2 then tagged m (Inr (d_Sub (amount m) (amount m2)))
    else Inl (CurrencyMismatch (resolvedCode m) (resolvedCode m2)))"
  by (simp add: Sub_def checkCurrencies_cases tagged_def amount_ensureInitialized
      ensureInitialized_idem)

lemma Mul_cases:
  "Mul m m2 =
   (if resolvedCode m = resolvedCode m2 then tagged m (d_Mul (amount m) (amount m2))
    else Inl (CurrencyMismatch (resolvedCode m) (resolvedCode m2)))"
  by (simp add: Mul_def checkCurrencies_cases tagged_def amount_ensureInitialized)

lemma DivRound_cases:
  "DivRound m m2 precision =
   (if resolvedCode m = resolvedCode m2 then tagged m (d_DivRound (amount m) (amount m2) precision)
    else Inl (CurrencyMismatch (resolvedCode m) (resolvedCode m2)))"
  by (simp add: DivRound_def checkCurrencies_cases tagged_def amount_ensureInitialized)

lemma Mod_cases:
  "Mod m m2 =
   (if resolvedCode m = resolvedCode m2 then tagged m (d_Mod (amount m) (amount m2))
    else Inl (CurrencyMismatch (resolvedCode m) (resolvedCode m2)))"
  by (simp add: Mod_def checkCurrencies_cases tagged_def amount_ensureInitialized)

lemma Pow_cases:
  "Pow_m m m2 =
   (if resolvedCode m = resolvedCode m2 then map_option (tagged m) (d_Pow (amount m) (amount m2))
    else Some (Inl (CurrencyMismatch (resolvedCode m) (resolvedCode m2))))"
  by (simp add: Pow_m_def checkCurrencies_cases tagged_def amount_ensureInitialized
      split: option.splits sum.splits)

lemma Cmp_cases:
  "Cmp m m2 =
   (if resolvedCode m = resolvedCode m2 then Inr (d_Cmp (amount m) (amount m2))
    else Inl (CurrencyMismatch (resolvedCode m) (resolvedCode m2)))"
  by (simp add: Cmp_def checkCurrencies_cases amount_ensureInitialized)

lemma QuoRem_cases:
  "QuoRem m m2 precision =
   (if resolvedCode m = resolvedCode m2
    then (case d_QuoRem (amount m) (amount m2) precision of
            Inl p \<Rightarrow> Inl p
          | Inr (q, r) \<Rightarrow>
              Inr (\<lparr>amount = q, currency = currency (ensureInitialized m)\<rparr>,
                   \<lparr>amount = r, currency = currency (ensureInitialized m2)\<rparr>))
    else Inl (CurrencyMismatch (resolvedCode m) (resolvedCode m2)))"
  by (simp add: QuoRem_def checkCurrencies_cases amount_ensureInitialized)

lemma tagged_Inr_code:
  "tagged m x = Inr r \<Longrightarrow> currencyCode r = Some (resolvedCode m)"
  by (auto simp: tagged_def resolvedCode_ensureInitialized [symmetric] currencyCode_def
      split: sum.splits)

lemma resolvedCode_Some: "currency m = Some c \<Longrightarrow> resolvedCode m = Code c"
  by (simp add: resolvedCode_def)

section \<open>The zero value\<close>

text \<open>C5. A Money whose currency was never set is to be coerced to the unknown currency at
  its first use by any exported operation. \<^verbatim>\<open>Abs\<close> and its siblings do so through
  \<^verbatim>\<open>ensureInitialized\<close>; \<^verbatim>\<open>MarshalBinary\<close>, \<^verbatim>\<open>Avg\<close> and \<^verbatim>\<open>UpdateCurrency\<close> read
  \<^verbatim>\<open>currency.Code\<close> first, and on the zero value that is a nil dereference.\<close>

theorem zero_value_money_nil_dereference:
  "MarshalBinary zeroValueMoney = Inl NilDereference \<and>
   Avg g zeroValueMoney rest = Inl NilDereference \<and>
   UpdateCurrency g zeroValueMoney code = Inl NilDereference \<and>
   currency (Abs zeroValueMoney) = Some getUnknownCurrency \<and>
   String zeroValueMoney = ''0''"
  by (simp add: MarshalBinary_def Avg_def UpdateCurrency_def Abs_def zeroValueMoney_def
      ensureInitialized_def String_def d_String_def d_string_def rescale_def big_String_def
      digitChar_def)

section \<open>Currency safety of the binary operations\<close>

text \<open>C1, as the claim states it, promises that every binary operation on operands of one
  currency succeeds. The division of one dollar by zero dollars passes the currency check and
  panics in the engine.\<close>

theorem same_currency_division_by_zero_panics:
  "resolvedCode (fst (New initialGlobals ''USD'' 1 0)) =
     resolvedCode (fst (New initialGlobals ''USD'' 0 0)) \<and>
   DivRound (fst (New initialGlobals ''USD'' 1 0)) (fst (New initialGlobals ''USD'' 0 0)) 2 =
     Inl DivisionByZero"
  by (simp add: DivRound_cases New_USD resolvedCode_def tagged_def d_DivRound_def d_QuoRem_def
      d_New_def big_Sign_def)

text \<open>C1 (amended). When the resolved currency codes of the operands differ, each of
  \<^verbatim>\<open>Add, Sub, Mul, DivRound, Div, QuoRem, Mod, Pow, Cmp\<close> panics with the mismatch and yields
  no result. When they agree, the check passes and the operation yields what the decimal
  engine yields on the two amounts, tagged with the receiver's currency: \<^verbatim>\<open>Add\<close>, \<^verbatim>\<open>Sub\<close> and
  \<^verbatim>\<open>Cmp\<close> always succeed, the others fail only where the engine does. One dollar plus two
  dollars is three dollars.\<close>

theorem binary_operations_currency_check:
  "(resolvedCode m \<noteq> resolvedCode m2 \<longrightarrow>
      Add m m2 = Inl (CurrencyMismatch (resolvedCode m) (resolvedCode m2)) \<and>
      Sub m m2 = Inl (CurrencyMismatch (resolvedCode m) (resolvedCode m2)) \<and>
      Mul m m2 = Inl (CurrencyMismatch (resolvedCode m) (resolvedCode m2)) \<and>
      DivRound m m2 precision = Inl (CurrencyMismatch (resolvedCode m) (resolvedCode m2)) \<and>
      Div g m m2 = Inl (CurrencyMismatch (resolvedCode m) (resolvedCode m2)) \<and>
      QuoRem m m2 precision = Inl (CurrencyMismatch (resolvedCode m) (resolvedCode m2)) \<and>
      Mod m m2 = Inl (CurrencyMismatch (resolvedCode m) (resolvedCode m2)) \<and>
      Pow_m m m2 = Some (Inl (CurrencyMismatch (resolvedCode m) (resolvedCode m2))) \<and>
      Cmp m m2 = Inl (CurrencyMismatch (resolvedCode m) (resolvedCode m2))) \<and>
   (resolvedCode m = resolvedCode m2 \<longrightarrow>
      Add m m2 = tagged m (Inr (d_Add (amount m) (amount m2))) \<and>
      Sub m m2 = tagged m (Inr (d_Sub (amount m) (amount m2))) \<and>
      Cmp m m2 = Inr (d_Cmp (amount m) (amount m2)) \<and>
      Mul m m2 = tagged m (d_Mul (amount m) (amount m2)) \<and>
      DivRound m m2 precision = tagged m (d_DivRound (amount m) (amount m2) precision) \<and>
      Div g m m2 =
        tagged m (d_DivRound (amount m) (amount m2) (word_of_int (DivisionPrecision g))) \<and>
      Mod m m2 = tagged m (d_Mod (amount m) (amount m2)) \<and>
      Pow_m m m2 = map_option (tagged m) (d_Pow (amount m) (amount m2)) \<and>
      QuoRem m m2 precision =
        (case d_QuoRem (amount m) (amount m2) precision of
           Inl p \<Rightarrow> Inl p
         | Inr (q, r) \<Rightarrow>
             Inr (\<lparr>amount = q, currency = currency (ensureInitialized m)\<rparr>,
                  \<lparr>amount = r, currency = currency (ensureInitialized m2)\<rparr>))) \<and>
   Add (fst (New initialGlobals ''USD'' 1 0)) (fst (New initialGlobals ''USD'' 2 0)) =
     Inr (fst (New initialGlobals ''USD'' 3 0))"
proof -
  have ex: "Add (fst (New initialGlobals ''USD'' 1 0)) (fst (New initialGlobals ''USD'' 2 0)) =
     Inr (fst (New initialGlobals ''USD'' 3 0))"
    by (simp add: Add_cases New_USD resolvedCode_def tagged_def ensureInitialized_def d_Add_def
        d_New_def min32_def rescale_def)
  have mismatch: "resolvedCode m \<noteq> resolvedCode m2 \<longrightarrow>
      Add m m2 = Inl (CurrencyMismatch (resolvedCode m) (resolvedCode m2)) \<and>
      Sub m m2 = Inl (CurrencyMismatch (resolvedCode m) (resolvedCode m2)) \<and>
      Mul m m2 = Inl (CurrencyMismatch (resolvedCode m) (resolvedCode m2)) \<and>
      DivRound m m2 precision = Inl (CurrencyMismatch (resolvedCode m) (resolvedCode m2)) \<and>
      Div g m m2 = Inl (CurrencyMismatch (resolvedCode m) (resolvedCode m2)) \<and>
      QuoRem m m2 precision = Inl (CurrencyMismatch (resolvedCode m) (resolvedCode m2)) \<and>
      Mod m m2 = Inl (CurrencyMismatch (resolvedCode m) (resolvedCode m2)) \<and>
      Pow_m m m2 = Some (Inl (CurrencyMismatch (resolvedCode m) (resolvedCode m2))) \<and>
      Cmp m m2 = Inl (CurrencyMismatch (resolvedCode m) (resolvedCode m2))"
    by (simp add: Add_cases Sub_cases Mul_cases DivRound_cases Div_def Mod_cases Pow_cases
        Cmp_cases QuoRem_cases)
  have match: "resolvedCode m = resolvedCode m2 \<longrightarrow>
      Add m m2 = tagged m (Inr (d_Add (amount m) (amount m2))) \<and>
      Sub m m2 = tagged m (Inr (d_Sub (amount m) (amount m2))) \<and>
      Cmp m m2 = Inr (d_Cmp (amount m) (amount m2)) \<and>
      Mul m m2 = tagged m (d_Mul (amount m) (amount m2)) \<and>
      DivRound m m2 precision = tagged m (d_DivRound (amount m) (amount m2) precision) \<and>
      Div g m m2 =
        tagged m (d_DivRound (amount m) (amount m2) (word_of_int (DivisionPrecision g))) \<and>
      Mod m m2 = tagged m (d_Mod (amount m) (amount m2)) \<and>
      Pow_m m m2 = map_option (tagged m) (d_Pow (amount m) (amount m2)) \<and>
      QuoRem m m2 precision =
        (case d_QuoRem (amount m) (amount m2) precision of
           Inl p \<Rightarrow> Inl p
         | Inr (q, r) \<Rightarrow>
             Inr (\<lparr>amount = q, currency = currency (ensureInitialized m)\<rparr>,
                  \<lparr>amount = r, currency = currency (ensureInitialized m2)\<rparr>))"
    by (simp add: Add_cases Sub_cases Mul_cases DivRound_cases Div_def Mod_cases Pow_cases
        Cmp_cases QuoRem_cases)
  show ?thesis
    by (rule conjI [OF mismatch conjI [OF match ex]])
qed

theorem binary_operations_currency_check_witness:
  "resolvedCode (fst (New initialGlobals ''USD'' 1 0)) \<noteq>
     resolvedCode (fst (New initialGlobals ''EUR'' 1 0)) \<and>
   Add (fst (New initialGlobals ''USD'' 1 0)) (fst (New initialGlobals ''EUR'' 1 0)) =
     Inl (CurrencyMismatch ''USD'' ''EUR'') \<and>
   Cmp (fst (New initialGlobals ''USD'' 1 0)) (fst (New initialGlobals ''EUR'' 1 0)) =
     Inl (CurrencyMismatch ''USD'' ''EUR'') \<and>
   resolvedCode (fst (New initialGlobals ''USD'' 1 0)) =
     resolvedCode (fst (New initialGlobals ''USD'' 2 0)) \<and>
   Mul (fst (New initialGlobals ''USD'' 1 0)) (fst (New initialGlobals ''USD'' 2 0)) =
     Inr (fst (New initialGlobals ''USD'' 2 0))"
proof -
  let ?a = "fst (New initialGlobals ''USD'' 1 0)"
  let ?b = "fst (New initialGlobals ''EUR'' 1 0)"
  let ?c = "fst (New initialGlobals ''USD'' 2 0)"
  have ne: "resolvedCode ?a \<noteq> resolvedCode ?b"
    by (simp add: New_USD New_EUR resolvedCode_def mkCurrency_def)
  have eq: "resolvedCode ?a = resolvedCode ?c"
    by (simp add: New_USD resolvedCode_def)
  have cu: "resolvedCode ?a = ''USD''" and ce: "resolvedCode ?b = ''EUR''"
    by (simp_all add: New_USD New_EUR resolvedCode_def mkCurrency_def)
  have mul: "tagged ?a (d_Mul (amount ?a) (amount ?c)) = Inr ?c"
    by (simp add: New_USD tagged_def ensureInitialized_def d_Mul_def d_New_def)
  from binary_operations_currency_check [of ?a ?b] ne cu ce
  have "Add ?a ?b = Inl (CurrencyMismatch ''USD'' ''EUR'')"
    and "Cmp ?a ?b = Inl (CurrencyMismatch ''USD'' ''EUR'')"
    by simp_all
  moreover from binary_operations_currency_check [of ?a ?c] eq mul
  have "Mul ?a ?c = Inr ?c"
    by simp
  ultimately show ?thesis
    using ne eq by simp
qed

section \<open>Currency preservation\<close>

text \<open>C10. Every amount-transforming operation preserves the currency: for a Money \<open>m\<close> with
  a non-nil currency, the results of \<^verbatim>\<open>Abs, Neg, Shift, Round, RoundBank, RoundCash, Floor,
  Ceil, Truncate\<close>, of the binary operations \<^verbatim>\<open>Add, Sub, Mul, DivRound, Div, Mod, Pow\<close>, and
  both the quotient and the remainder of \<^verbatim>\<open>QuoRem\<close>, carry a currency whose code is that of
  \<open>m\<close>'s currency. (A binary operation has a result only on an operand of the same currency.)\<close>

theorem amount_operations_preserve_currency:
  assumes "currency m = Some c"
  shows "currencyCode (Abs m) = Some (Code c) \<and>
         currencyCode (Neg m) = Some (Code c) \<and>
         currencyCode (Shift m shift) = Some (Code c) \<and>
         currencyCode (Round m places) = Some (Code c) \<and>
         currencyCode (RoundBank m places) = Some (Code c) \<and>
         currencyCode (Floor m) = Some (Code c) \<and>
         currencyCode (Ceil m) = Some (Code c) \<and>
         currencyCode (Truncate m places) = Some (Code c) \<and>
         (RoundCash m interval = Inr rc \<longrightarrow> currencyCode rc = Some (Code c)) \<and>
         (Add m m2 = Inr ra \<longrightarrow> currencyCode ra = Some (Code c)) \<and>
         (Sub m m2 = Inr rs \<longrightarrow> currencyCode rs = Some (Code c)) \<and>
         (Mul m m2 = Inr rm \<longrightarrow> currencyCode rm = Some (Code c)) \<and>
         (DivRound m m2 precision = Inr rd \<longrightarrow> currencyCode rd = Some (Code c)) \<and>
         (Div g m m2 = Inr rv \<longrightarrow> currencyCode rv = Some (Code c)) \<and>
         (Mod m m2 = Inr ro \<longrightarrow> currencyCode ro = Some (Code c)) \<and>
         (Pow_m m m2 = Some (Inr rp) \<longrightarrow> currencyCode rp = Some (Code c)) \<and>
         (QuoRem m m2 precision = Inr (q, r) \<longrightarrow>
            currencyCode q = Some (Code c) \<and> currencyCode r = Some (Code c))"
proof -
  note init = ensureInitialized_Some [OF assms]
  note rc = resolvedCode_Some [OF assms]
  have unary:
    "currencyCode (Abs m) = Some (Code c)" "currencyCode (Neg m) = Some (Code c)"
    "currencyCode (Shift m shift) = Some (Code c)" "currencyCode (Round m places) = Some (Code c)"
    "currencyCode (RoundBank m places) = Some (Code c)" "currencyCode (Floor m) = Some (Code c)"
    "currencyCode (Ceil m) = Some (Code c)" "currencyCode (Truncate m places) = Some (Code c)"
    using assms
    by (simp_all add: Abs_def Neg_def Shift_def Round_def RoundBank_def Floor_def Ceil_def
        Truncate_def init currencyCode_def)
  have cash: "RoundCash m interval = Inr rc \<longrightarrow> currencyCode rc = Some (Code c)"
    using assms by (auto simp: RoundCash_def init currencyCode_def split: sum.splits)
  have add: "Add m m2 = Inr ra \<longrightarrow> currencyCode ra = Some (Code c)"
    using tagged_Inr_code [of m _ ra] by (auto simp: Add_cases rc split: if_splits)
  have sub: "Sub m m2 = Inr rs \<longrightarrow> currencyCode rs = Some (Code c)"
    using tagged_Inr_code [of m _ rs] by (auto simp: Sub_cases rc split: if_splits)
  have mul: "Mul m m2 = Inr rm \<longrightarrow> currencyCode rm = Some (Code c)"
    using tagged_Inr_code [of m _ rm] by (auto simp: Mul_cases rc split: if_splits)
  have divr: "DivRound m m2 p = Inr x \<longrightarrow> currencyCode x = Some (Code c)" for p x
    using tagged_Inr_code [of m _ x] by (auto simp: DivRound_cases rc split: if_splits)
  have modu: "Mod m m2 = Inr ro \<longrightarrow> currencyCode ro = Some (Code c)"
    using tagged_Inr_code [of m _ ro] by (auto simp: Mod_cases rc split: if_splits)
  have pow: "Pow_m m m2 = Some (Inr rp) \<longrightarrow> currencyCode rp = Some (Code c)"
    using tagged_Inr_code [of m _ rp] by (auto simp: Pow_cases rc split: if_splits)
  have quorem: "QuoRem m m2 precision = Inr (q, r) \<longrightarrow>
            currencyCode q = Some (Code c) \<and> currencyCode r = Some (Code c)"
  proof
    assume qr: "QuoRem m m2 precision = Inr (q, r)"
    then have same: "resolvedCode m = resolvedCode m2"
      by (auto simp: QuoRem_cases split: if_splits)
    from qr same obtain dq dr where
      "q = \<lparr>amount = dq, currency = currency (ensureInitialized m)\<rparr>"
      "r = \<lparr>amount = dr, currency = currency (ensureInitialized m2)\<rparr>"
      by (auto simp: QuoRem_cases split: sum.splits)
    then have "currencyCode q = currencyCode (ensureInitialized m)"
      and "currencyCode r = currencyCode (ensureInitialized m2)"
      by (simp_all add: currencyCode_def)
    with same rc show "currencyCode q = Some (Code c) \<and> currencyCode r = Some (Code c)"
      by (simp add: resolvedCode_ensureInitialized)
  qed
  from unary cash add sub mul divr [of precision rd] divr [of "word_of_int (DivisionPrecision g)" rv]
    modu pow quorem
  show ?thesis
    by (simp only: Div_def simp_thms)
qed

theorem amount_operations_preserve_currency_witness:
  "currency (fst (New initialGlobals ''USD'' 7 0)) =
     Some (mkCurrency FIAT ''.'' '','' ''USD'' 2 ''$'' ''$1'') \<and>
   RoundCash (fst (New initialGlobals ''USD'' 7 0)) 5 = Inr (fst (New initialGlobals ''USD'' 700 (- 2))) \<and>
   Add (fst (New initialGlobals ''USD'' 7 0)) (fst (New initialGlobals ''USD'' 2 0)) =
     Inr (fst (New initialGlobals ''USD'' 9 0)) \<and>
   Sub (fst (New initialGlobals ''USD'' 7 0)) (fst (New initialGlobals ''USD'' 2 0)) =
     Inr (fst (New initialGlobals ''USD'' 5 0)) \<and>
   Mul (fst (New initialGlobals ''USD'' 7 0)) (fst (New initialGlobals ''USD'' 2 0)) =
     Inr (fst (New initialGlobals ''USD'' 14 0)) \<and>
   DivRound (fst (New initialGlobals ''USD'' 7 0)) (fst (New initialGlobals ''USD'' 2 0)) 2 =
     Inr (fst (New initialGlobals ''USD'' 350 (- 2))) \<and>
   Div initialGlobals (fst (New initialGlobals ''USD'' 7 0)) (fst (New initialGlobals ''USD'' 2 0)) =
     Inr (fst (NewFromBigInt initialGlobals ''USD'' 350000000000000000000 (- 20))) \<and>
   Mod (fst (New initialGlobals ''USD'' 7 0)) (fst (New initialGlobals ''USD'' 2 0)) =
     Inr (fst (New initialGlobals ''USD'' 1 0)) \<and>
   Pow_m (fst (New initialGlobals ''USD'' 7 0)) (fst (New initialGlobals ''USD'' 2 0)) =
     Some (Inr (fst (New initialGlobals ''USD'' 49 0))) \<and>
   QuoRem (fst (New initialGlobals ''USD'' 7 0)) (fst (New initialGlobals ''USD'' 2 0)) 0 =
     Inr (fst (New initialGlobals ''USD'' 3 0), fst (New initialGlobals ''USD'' 1 0)) \<and>
   currencyCode (fst (New initialGlobals ''USD'' 700 (- 2))) = Some ''USD'' \<and>
   currencyCode (fst (New initialGlobals ''USD'' 9 0)) = Some ''USD'' \<and>
   currencyCode (fst (New initialGlobals ''USD'' 5 0)) = Some ''USD'' \<and>
   currencyCode (fst (New initialGlobals ''USD'' 14 0)) = Some ''USD'' \<and>
   currencyCode (fst (New initialGlobals ''USD'' 350 (- 2))) = Some ''USD'' \<and>
   currencyCode (fst (NewFromBigInt initialGlobals ''USD'' 350000000000000000000 (- 20))) = Some ''USD'' \<and>
   currencyCode (fst (New initialGlobals ''USD'' 1 0)) = Some ''USD'' \<and>
   currencyCode (fst (New initialGlobals ''USD'' 49 0)) = Some ''USD'' \<and>
   currencyCode (fst (New initialGlobals ''USD'' 3 0)) = Some ''USD'' \<and>
   currencyCode (Abs (fst (New initialGlobals ''USD'' 7 0))) = Some ''USD''"
proof -
  let ?a = "fst (New initialGlobals ''USD'' 7 0)"
  let ?b = "fst (New initialGlobals ''USD'' 2 0)"
  let ?usd = "mkCurrency FIAT ''.'' '','' ''USD'' 2 ''$'' ''$1''"
  have h: "currency ?a = Some ?usd"
    by (simp add: New_USD)
  have code: "Code ?usd = ''USD''"
    by (simp add: mkCurrency_def)
  have e1: "RoundCash ?a 5 = Inr (fst (New initialGlobals ''USD'' 700 (- 2)))"
    by code_simp
  have e2: "Add ?a ?b = Inr (fst (New initialGlobals ''USD'' 9 0))"
    by code_simp
  have e3: "Sub ?a ?b = Inr (fst (New initialGlobals ''USD'' 5 0))"
    by code_simp
  have e4: "Mul ?a ?b = Inr (fst (New initialGlobals ''USD'' 14 0))"
    by code_simp
  have e5: "DivRound ?a ?b 2 = Inr (fst (New initialGlobals ''USD'' 350 (- 2)))"
    by code_simp
  have e6: "Div initialGlobals ?a ?b =
     Inr (fst (NewFromBigInt initialGlobals ''USD'' 350000000000000000000 (- 20)))"
    by code_simp
  have e7: "Mod ?a ?b = Inr (fst (New initialGlobals ''USD'' 1 0))"
    by code_simp
  have e8: "Pow_m ?a ?b = Some (Inr (fst (New initialGlobals ''USD'' 49 0)))"
    by code_simp
  have e9: "QuoRem ?a ?b 0 =
     Inr (fst (New initialGlobals ''USD'' 3 0), fst (New initialGlobals ''USD'' 1 0))"
    by code_simp
  note inst = amount_operations_preserve_currency [OF h, where ?m2.0 = "?b" and g = initialGlobals,
      unfolded code]
  have c1: "currencyCode (fst (New initialGlobals ''USD'' 700 (- 2))) = Some ''USD''"
    using inst [where interval = 5] e1 by blast
  have c2: "currencyCode (fst (New initialGlobals ''USD'' 9 0)) = Some ''USD''"
    using inst e2 by blast
  have c3: "currencyCode (fst (New initialGlobals ''USD'' 5 0)) = Some ''USD''"
    using inst e3 by blast
  have c4: "currencyCode (fst (New initialGlobals ''USD'' 14 0)) = Some ''USD''"
    using inst e4 by blast
  have c5: "currencyCode (fst (New initialGlobals ''USD'' 350 (- 2))) = Some ''USD''"
    using inst [where precision = 2] e5 by blast
  have c6: "currencyCode (fst (NewFromBigInt initialGlobals ''USD'' 350000000000000000000 (- 20))) =
     Some ''USD''"
    using inst e6 by blast
  have c7: "currencyCode (fst (New initialGlobals ''USD'' 1 0)) = Some ''USD''"
    using inst e7 by blast
  have c8: "currencyCode (fst (New initialGlobals ''USD'' 49 0)) = Some ''USD''"
    using inst e8 by blast
  have c9: "currencyCode (fst (New initialGlobals ''USD'' 3 0)) = Some ''USD''"
    using inst [where precision = 0] e9 by blast
  have c0: "currencyCode (Abs ?a) = Some ''USD''"
    using inst by blast
  from h e1 e2 e3 e4 e5 e6 e7 e8 e9 c1 c2 c3 c4 c5 c6 c7 c8 c9 c0 show ?thesis
    by (intro conjI)
qed

section \<open>UpdateCurrency\<close>



section \<open>Binary form\<close>

lemma unat_of_char: "unat (of_char c :: 8 word) = (of_char c :: nat)"
proof -
  have "(of_char c :: 8 word) = of_nat (of_char c)"
    by (simp add: of_char_def)
  moreover have "(of_char c :: nat) < 256"
    by simp
  ultimately show ?thesis
    by (simp add: unat_of_nat)
qed

lemma stringOfBytes_bytesOfString: "stringOfBytes (bytesOfString s) = s"
  by (simp add: stringOfBytes_def bytesOfString_def unat_of_char map_idI)

lemma length_bytesOfString: "length (bytesOfString s) = length s"
  by (simp add: bytesOfString_def)

lemma Uint32_PutUint32: "BigEndian_Uint32 (BigEndian_PutUint32 w) = Inr w"
proof -
  let ?r = "(ucast (ucast w :: 8 word) :: 32 word)
        OR push_bit 8 (ucast (ucast (drop_bit 8 w) :: 8 word))
        OR push_bit 16 (ucast (ucast (drop_bit 16 w) :: 8 word))
        OR push_bit 24 (ucast (ucast (drop_bit 24 w) :: 8 word))"
  have "?r = w"
  proof (rule bit_word_eqI)
    fix n :: nat
    assume n: "n < LENGTH(32)"
    consider "n < 8" | "8 \<le> n" "n < 16" | "16 \<le> n" "n < 24" | "24 \<le> n" "n < 32"
      using n by fastforce
    then show "bit ?r n = bit w n"
      by cases (auto simp: bit_simps)
  qed
  then show ?thesis
    by (simp add: BigEndian_Uint32_def BigEndian_PutUint32_def)
qed

lemma length_PutUint32: "length (BigEndian_PutUint32 w) = 4"
  by (simp add: BigEndian_PutUint32_def)

lemma Uint32_total: "4 \<le> length b \<Longrightarrow> \<exists>w. BigEndian_Uint32 b = Inr w"
proof -
  assume "4 \<le> length b"
  then obtain b0 b1 b2 b3 r where "b = b0 # b1 # b2 # b3 # r"
    by (metis (no_types, opaque_lifting) Suc_le_length_iff numeral_Bit0 add_Suc_right
        add_Suc numeral_One One_nat_def plus_1_eq_Suc le_SucE Suc_le_mono)
  then show ?thesis
    by (simp add: BigEndian_Uint32_def)
qed

lemma setBytes_append: "setBytes (xs @ [b]) = setBytes xs * 256 + unat b"
  by (simp add: setBytes_def)

lemma setBytes_natBytes: "setBytes (natBytes n) = n"
proof (induction n rule: natBytes.induct)
  case (1 n)
  show ?case
  proof (cases "n = 0")
    case True
    then show ?thesis by (simp add: setBytes_def)
  next
    case False
    have "unat (of_nat (n mod 256) :: 8 word) = n mod 256"
      by (simp add: unat_of_nat)
    with False 1 show ?thesis
      by (subst natBytes.simps) (simp add: setBytes_append del: natBytes.simps)
  qed
qed

lemma GobDecode_GobEncode: "big_GobDecode (big_GobEncode v) = Inr v"
  by (simp add: big_GobDecode_def big_GobEncode_def intGobVersion_def setBytes_natBytes
      del: natBytes.simps)

lemma GobEncode_nonempty: "big_GobEncode v \<noteq> []"
  by (simp add: big_GobEncode_def Let_def del: natBytes.simps)

lemma length_GobEncode: "1 \<le> length (big_GobEncode v)"
  using GobEncode_nonempty [of v] by (cases "big_GobEncode v") simp_all

text \<open>What \<^verbatim>\<open>MarshalBinary\<close> writes for a Money that has a currency.\<close>

lemma MarshalBinary_Some:
  "currency m = Some c \<Longrightarrow>
   MarshalBinary m =
     Inr (bytesOfString (Code c) @ BigEndian_PutUint32 (dexp (amount m)) @
          big_GobEncode (dvalue (amount m)), None)"
  by (simp add: MarshalBinary_def Exponent_def Coefficient_def d_Exponent_def d_Coefficient_def
      ensureInitialized_def)

text \<open>What \<^verbatim>\<open>UnmarshalBinary\<close> reads from a well-formed payload with a code of 3 bytes.\<close>

lemma UnmarshalBinary_encoded:
  assumes "length code = 3"
  shows "UnmarshalBinary g m (bytesOfString code @ BigEndian_PutUint32 e @ big_GobEncode v) =
         Inr (fst (NewFromBigInt g code v e), None)"
proof -
  let ?data = "bytesOfString code @ BigEndian_PutUint32 e @ big_GobEncode v"
  have len: "\<not> length ?data < 8"
    using assms length_GobEncode [of v] by (simp add: length_bytesOfString length_PutUint32 GobEncode_nonempty)
  have t3: "take 3 ?data = bytesOfString code"
    using assms by (simp add: length_bytesOfString)
  have t4: "take 4 (drop 3 ?data) = BigEndian_PutUint32 e"
    using assms by (simp add: length_bytesOfString length_PutUint32)
  have d7: "drop 7 ?data = big_GobEncode v"
    using assms by (simp add: length_bytesOfString length_PutUint32)
  show ?thesis
    unfolding UnmarshalBinary_def Let_def
    by (simp only: len t3 t4 d7 if_False stringOfBytes_bytesOfString Uint32_PutUint32
        GobDecode_GobEncode sum.case)
qed

text \<open>C2. For every valid triple of a currency code (registered under itself, 3 bytes long), a
  coefficient and an exponent, \<^verbatim>\<open>UnmarshalBinary\<close> after \<^verbatim>\<open>MarshalBinary\<close> of the Money built
  from the triple reports no error and yields a Money with the same coefficient, the same
  exponent and the same currency code: it yields the Money that was encoded.\<close>

theorem binary_round_trip:
  assumes "GetCurrency g code = Some c" and "Code c = code" and "length code = 3"
  shows "MarshalBinary (fst (NewFromBigInt g code v e)) =
           Inr (bytesOfString code @ BigEndian_PutUint32 e @ big_GobEncode v, None) \<and>
         UnmarshalBinary g m (bytesOfString code @ BigEndian_PutUint32 e @ big_GobEncode v) =
           Inr (fst (NewFromBigInt g code v e), None) \<and>
         Coefficient (fst (NewFromBigInt g code v e)) = v \<and>
         Exponent (fst (NewFromBigInt g code v e)) = e \<and>
         currencyCode (fst (NewFromBigInt g code v e)) = Some code"
proof -
  have mk: "fst (NewFromBigInt g code v e) = \<lparr>amount = d_NewFromBigInt v e, currency = Some c\<rparr>"
    using assms(1) by (simp add: NewFromBigInt_def)
  have enc: "MarshalBinary (fst (NewFromBigInt g code v e)) =
           Inr (bytesOfString code @ BigEndian_PutUint32 e @ big_GobEncode v, None)"
    using MarshalBinary_Some [of "fst (NewFromBigInt g code v e)" c] assms(2)
    by (simp add: mk d_NewFromBigInt_def)
  have dec: "UnmarshalBinary g m (bytesOfString code @ BigEndian_PutUint32 e @ big_GobEncode v) =
           Inr (fst (NewFromBigInt g code v e), None)"
    by (rule UnmarshalBinary_encoded [OF assms(3)])
  have co: "Coefficient (fst (NewFromBigInt g code v e)) = v"
    by (simp add: mk Coefficient_def d_Coefficient_def d_NewFromBigInt_def ensureInitialized_def)
  have ex: "Exponent (fst (NewFromBigInt g code v e)) = e"
    by (simp add: mk Exponent_def d_Exponent_def d_NewFromBigInt_def ensureInitialized_def)
  have cc: "currencyCode (fst (NewFromBigInt g code v e)) = Some code"
    using assms(2) by (simp add: mk currencyCode_def)
  from enc dec co ex cc show ?thesis
    by (intro conjI)
qed

theorem binary_round_trip_witness:
  "GetCurrency initialGlobals ''USD'' = Some (mkCurrency FIAT ''.'' '','' ''USD'' 2 ''$'' ''$1'') \<and>
   Code (mkCurrency FIAT ''.'' '','' ''USD'' 2 ''$'' ''$1'') = ''USD'' \<and>
   length ''USD'' = 3 \<and>
   MarshalBinary (fst (NewFromBigInt initialGlobals ''USD'' (- 12345) (- 3))) =
     Inr ([85, 83, 68, 255, 255, 255, 253, 3, 48, 57], None) \<and>
   UnmarshalBinary initialGlobals zeroValueMoney [85, 83, 68, 255, 255, 255, 253, 3, 48, 57] =
     Inr (fst (NewFromBigInt initialGlobals ''USD'' (- 12345) (- 3)), None) \<and>
   Coefficient (fst (NewFromBigInt initialGlobals ''USD'' (- 12345) (- 3))) = - 12345 \<and>
   Exponent (fst (NewFromBigInt initialGlobals ''USD'' (- 12345) (- 3))) = - 3"
proof -
  have k: "Code (mkCurrency FIAT ''.'' '','' ''USD'' 2 ''$'' ''$1'') = ''USD''"
    by (simp add: mkCurrency_def)
  have l: "length ''USD'' = 3"
    by simp
  have bytes: "bytesOfString ''USD'' @ BigEndian_PutUint32 (- 3) @ big_GobEncode (- 12345) =
     [85, 83, 68, 255, 255, 255, 253, 3, 48, 57]"
    by code_simp
  note rt = binary_round_trip [OF GetCurrency_USD k l, of "- 12345" "- 3" zeroValueMoney,
      unfolded bytes]
  from rt have r1: "MarshalBinary (fst (NewFromBigInt initialGlobals ''USD'' (- 12345) (- 3))) =
     Inr ([85, 83, 68, 255, 255, 255, 253, 3, 48, 57], None)"
    by (rule conjunct1)
  from rt have r2: "UnmarshalBinary initialGlobals zeroValueMoney
       [85, 83, 68, 255, 255, 255, 253, 3, 48, 57] =
     Inr (fst (NewFromBigInt initialGlobals ''USD'' (- 12345) (- 3)), None)"
    by (rule conjunct2 [THEN conjunct1])
  from rt have r3: "Coefficient (fst (NewFromBigInt initialGlobals ''USD'' (- 12345) (- 3))) = - 12345"
    by (rule conjunct2 [THEN conjunct2, THEN conjunct1])
  from rt have r4: "Exponent (fst (NewFromBigInt initialGlobals ''USD'' (- 12345) (- 3))) = - 3"
    by (rule conjunct2 [THEN conjunct2, THEN conjunct2, THEN conjunct1])
  from GetCurrency_USD k l r1 r2 r3 r4 show ?thesis
    by (intro conjI)
qed

text \<open>C4, as the claim states it, has a payload with an unregistered code decoded into the
  default metadata for that code and the coefficient and exponent of the payload. The payload
  \<^verbatim>\<open>"XYZ"\<close>, exponent 0, coefficient 5 is decoded without an error into a zero amount.\<close>

theorem unregistered_code_drops_the_amount:
  "GetCurrency initialGlobals ''XYZ'' = None \<and>
   UnmarshalBinary initialGlobals zeroValueMoney (bytesOfString ''XYZ'' @ [0, 0, 0, 0, 2, 5]) =
     Inr (\<lparr>amount = d_Zero, currency = Some (getBadCurrency initialGlobals)\<rparr>, None) \<and>
   big_GobDecode [2, 5] = Inr 5 \<and>
   d_Zero \<noteq> d_NewFromBigInt 5 0 \<and>
   getBadCurrency initialGlobals \<noteq> getDefault (mkCurrency FIAT '''' '''' ''XYZ'' 0 '''' '''')"
proof -
  have dec: "UnmarshalBinary initialGlobals zeroValueMoney (bytesOfString ''XYZ'' @ [0, 0, 0, 0, 2, 5]) =
     Inr (\<lparr>amount = d_Zero, currency = Some (getBadCurrency initialGlobals)\<rparr>, None)"
    by code_simp
  have g: "big_GobDecode [2, 5] = Inr 5"
    by (simp add: big_GobDecode_def intGobVersion_def setBytes_def)
  have z: "d_Zero \<noteq> d_NewFromBigInt 5 0"
    by (simp add: d_Zero_def d_New_def d_NewFromBigInt_def)
  have b: "getBadCurrency initialGlobals \<noteq> getDefault (mkCurrency FIAT '''' '''' ''XYZ'' 0 '''' '''')"
    by (simp add: getBadCurrency_def initialGlobals_def badCurrencyMarker_def getDefault_def
        mkCurrency_def)
  from GetCurrency_XYZ dec g z b show ?thesis
    by (intro conjI)
qed

text \<open>C4 (amended). For a payload of at least 8 bytes whose first 3 bytes spell a code that
  is not registered, \<^verbatim>\<open>UnmarshalBinary\<close> never falls back to default metadata for the code.
  When the bytes from offset 7 are a big integer in gob form, it reports no error and sets the
  Money to the zero amount with the bad-currency marker, dropping the decoded coefficient and
  exponent; otherwise it returns the decoding error and leaves the Money as it was.\<close>

theorem UnmarshalBinary_unregistered_code:
  assumes "8 \<le> length data" and "GetCurrency g (stringOfBytes (take 3 data)) = None"
  shows "UnmarshalBinary g m data =
           (case big_GobDecode (drop 7 data) of
              Inl err \<Rightarrow> Inr (m, Some err)
            | Inr v \<Rightarrow> Inr (\<lparr>amount = d_Zero, currency = Some (getBadCurrency g)\<rparr>, None))"
proof -
  have "4 \<le> length (take 4 (drop 3 data))"
    using assms(1) by simp
  then obtain w where w: "BigEndian_Uint32 (take 4 (drop 3 data)) = Inr w"
    using Uint32_total by blast
  have nb: "fst (NewFromBigInt g (stringOfBytes (take 3 data)) v w) =
     \<lparr>amount = d_Zero, currency = Some (getBadCurrency g)\<rparr>" for v
    using assms(2) by (simp add: NewFromBigInt_def)
  from assms(1) have "\<not> length data < 8"
    by simp
  then show ?thesis
    by (simp add: UnmarshalBinary_def Let_def w nb split: sum.splits)
qed

theorem UnmarshalBinary_unregistered_code_witness:
  "8 \<le> length (bytesOfString ''XYZ'' @ [0, 0, 0, 0, 2, 5]) \<and>
   GetCurrency initialGlobals (stringOfBytes (take 3 (bytesOfString ''XYZ'' @ [0, 0, 0, 0, 2, 5]))) = None \<and>
   UnmarshalBinary initialGlobals (fst (New initialGlobals ''USD'' 7 0))
       (bytesOfString ''XYZ'' @ [0, 0, 0, 0, 2, 5]) =
     Inr (\<lparr>amount = d_Zero, currency = Some badCurrencyMarker\<rparr>, None) \<and>
   8 \<le> length (bytesOfString ''XYZ'' @ [0, 0, 0, 0, 7, 5]) \<and>
   UnmarshalBinary initialGlobals (fst (New initialGlobals ''USD'' 7 0))
       (bytesOfString ''XYZ'' @ [0, 0, 0, 0, 7, 5]) =
     Inr (fst (New initialGlobals ''USD'' 7 0), Some (GobVersionNotSupported 3))"
proof -
  let ?d1 = "bytesOfString ''XYZ'' @ [0, 0, 0, 0, 2, 5]"
  let ?d2 = "bytesOfString ''XYZ'' @ [0, 0, 0, 0, 7, 5]"
  let ?m = "fst (New initialGlobals ''USD'' 7 0)"
  have l1: "8 \<le> length ?d1" and l2: "8 \<le> length ?d2"
    by (simp_all add: bytesOfString_def)
  have "take 3 ?d1 = bytesOfString ''XYZ''" and "take 3 ?d2 = bytesOfString ''XYZ''"
    by (simp_all add: bytesOfString_def)
  then have "stringOfBytes (take 3 ?d1) = ''XYZ''" and "stringOfBytes (take 3 ?d2) = ''XYZ''"
    by (simp_all only: stringOfBytes_bytesOfString)
  then have c1: "GetCurrency initialGlobals (stringOfBytes (take 3 ?d1)) = None"
    and c2: "GetCurrency initialGlobals (stringOfBytes (take 3 ?d2)) = None"
    by (simp_all add: GetCurrency_XYZ)
  have g1: "big_GobDecode (drop 7 ?d1) = Inr 5"
    by (simp add: bytesOfString_def big_GobDecode_def intGobVersion_def setBytes_def)
  have g2: "big_GobDecode (drop 7 ?d2) = Inl (GobVersionNotSupported 3)"
    by (simp add: bytesOfString_def big_GobDecode_def intGobVersion_def)
  have bad: "getBadCurrency initialGlobals = badCurrencyMarker"
    by (simp add: getBadCurrency_def initialGlobals_def)
  have r1: "UnmarshalBinary initialGlobals ?m ?d1 =
     Inr (\<lparr>amount = d_Zero, currency = Some badCurrencyMarker\<rparr>, None)"
    using UnmarshalBinary_unregistered_code [OF l1 c1, of ?m] by (simp only: g1 bad sum.case)
  have r2: "UnmarshalBinary initialGlobals ?m ?d2 = Inr (?m, Some (GobVersionNotSupported 3))"
    using UnmarshalBinary_unregistered_code [OF l2 c2, of ?m] by (simp only: g2 sum.case)
  from l1 c1 r1 l2 r2 show ?thesis
    by (intro conjI)
qed

section \<open>Formatting\<close>

lemma FormatCurrency_example:
  "FormatCurrency (NewFormatter 2 ''.'' '','' ''$'' ''$1'') (d_New (- 12345) (- 3)) = Inr ''-$12.34''"
  by code_simp

lemma FormatAccounting_example:
  "FormatAccounting (NewFormatter 2 ''.'' '','' ''$'' ''$1'') (d_New (- 12345) (- 3)) = Inr ''(12.34)''"
  by code_simp

lemma StringFixedBank_example: "d_StringFixedBank (d_Abs (d_New (- 12345) (- 3))) 2 = ''12.34''"
  by code_simp

text \<open>C3, as the claim states it, expects \<^verbatim>\<open>"-$12.35"\<close> and \<^verbatim>\<open>"(12.35)"\<close>. The formatter rounds
  12.345 bank-style, to the even neighbour 12.34, so neither string is produced.\<close>

theorem format_example_is_not_12_35:
  "FormatCurrency (NewFormatter 2 ''.'' '','' ''$'' ''$1'') (d_New (- 12345) (- 3)) \<noteq> Inr ''-$12.35'' \<and>
   FormatAccounting (NewFormatter 2 ''.'' '','' ''$'' ''$1'') (d_New (- 12345) (- 3)) \<noteq> Inr ''(12.35)''"
  by (simp add: FormatCurrency_example FormatAccounting_example)

text \<open>C3 (amended). \<^verbatim>\<open>FormatCurrency\<close> of the Decimal -12345 x 10^-3 under the descriptor with
  fraction 2, grapheme \<^verbatim>\<open>"$"\<close>, template \<^verbatim>\<open>"$1"\<close>, decimal point \<^verbatim>\<open>"."\<close> and thousand separator
  \<^verbatim>\<open>","\<close> is \<^verbatim>\<open>"-$12.34"\<close>, the amount bank-rounded from 3 to 2 fraction digits, and
  \<^verbatim>\<open>FormatAccounting\<close> of the same value is \<^verbatim>\<open>"(12.34)"\<close>.\<close>

theorem format_example_bank_rounded:
  "d_StringFixedBank (d_Abs (d_New (- 12345) (- 3))) 2 = ''12.34'' \<and>
   FormatCurrency (NewFormatter 2 ''.'' '','' ''$'' ''$1'') (d_New (- 12345) (- 3)) = Inr ''-$12.34'' \<and>
   FormatAccounting (NewFormatter 2 ''.'' '','' ''$'' ''$1'') (d_New (- 12345) (- 3)) = Inr ''(12.34)''"
  by (simp only: StringFixedBank_example FormatCurrency_example FormatAccounting_example simp_thms)

section \<open>Rounding\<close>

lemma sint32_range: "- 2147483648 \<le> sint (x :: 32 word) \<and> sint x \<le> 2147483647"
  using sint_ge [of x] sint_lt [of x] by simp

lemma sint32_eq_iff: "(x = y) = (sint (x :: 32 word) = sint y)"
  by (auto intro: signed_word_eqI)

lemma sint32_of_int: "- 2147483648 \<le> i \<Longrightarrow> i \<le> 2147483647 \<Longrightarrow> sint (word_of_int i :: 32 word) = i"
  by (simp add: sint_sbintrunc' signed_take_bit_int_eq_self)

lemma sint32_neg: "sint (p :: 32 word) \<noteq> - 2147483648 \<Longrightarrow> sint (- p) = - sint p"
proof -
  assume h: "sint p \<noteq> - 2147483648"
  have "- p = word_of_int (- sint p)"
    by simp
  moreover have "- 2147483648 \<le> - sint p" "- sint p \<le> 2147483647"
    using sint32_range [of p] h by linarith+
  ultimately show ?thesis
    by (simp only: sint32_of_int)
qed

lemma sint32_neg_pred: "sint (p :: 32 word) \<noteq> - 2147483648 \<Longrightarrow> sint (- p - 1) = - sint p - 1"
proof -
  assume h: "sint p \<noteq> - 2147483648"
  have "- p - 1 = word_of_int (- sint p - 1)"
    by simp
  moreover have "- 2147483648 \<le> - sint p - 1" "- sint p - 1 \<le> 2147483647"
    using sint32_range [of p] h by linarith+
  ultimately show ?thesis
    by (simp only: sint32_of_int)
qed

lemma big_Quo_pos: "0 < b \<Longrightarrow> big_Quo a b = sgn a * (\<bar>a\<bar> div b)"
  by (simp add: big_Quo_def)

lemma big_Quo_one: "big_Quo a 1 = a"
  by (simp add: big_Quo_def mult_sgn_abs)

lemma rescale_exp: "dexp (rescale d t) = t"
  by (simp add: rescale_def Let_def)

lemma rescale_value:
  "dvalue (rescale d t) =
   (if sint (dexp d) \<le> sint t then big_Quo (dvalue d) (10 ^ nat (sint t - sint (dexp d)))
    else dvalue d * 10 ^ nat (sint (dexp d) - sint t))"
  by (auto simp: rescale_def Let_def big_Quo_one sint32_eq_iff)

lemma round_core:
  "(let v = (if r < 0 then r - 5 else r + 5); q = v div 10; m = v mod 10
    in if q < 0 \<and> m \<noteq> 0 then q + 1 else q) = sgn r * ((\<bar>r\<bar> + 5) div 10)" for r :: int
proof (cases "r < 0")
  case True
  define a where "a = 5 - r"
  have r: "r = 5 - a"
    by (simp add: a_def)
  have a: "5 < a"
    using True by (simp add: a_def)
  have q: "(- a) div 10 = (if a mod 10 = 0 then - (a div 10) else - (a div 10) - 1)"
    by (simp add: zdiv_zminus1_eq_if)
  have m: "(- a) mod 10 = (if a mod 10 = 0 then 0 else 10 - a mod 10)"
    by (simp add: zmod_zminus1_eq_if)
  have nn: "0 \<le> a div 10"
    using a by (simp add: pos_imp_zdiv_nonneg_iff)
  have lt: "a mod 10 < 10"
    by simp
  have lhs: "(let v = - a; q = v div 10; m = v mod 10 in if q < 0 \<and> m \<noteq> 0 then q + 1 else q) =
      - (a div 10)"
  proof (cases "a mod 10 = 0")
    case True
    with q m show ?thesis
      by (simp add: Let_def)
  next
    case False
    with q m nn lt show ?thesis
      by (simp add: Let_def)
  qed
  have "5 - a - 5 = - a" "\<bar>5 - a\<bar> + 5 = a" "sgn (5 - a) = - 1" "5 - a < 0"
    using a by (simp_all add: sgn_if)
  with lhs show ?thesis
    unfolding r by (simp only: if_True)
next
  case False
  then have "0 \<le> (r + 5) div 10"
    by (simp add: pos_imp_zdiv_nonneg_iff)
  with False show ?thesis
    by (cases "r = 0") (simp_all add: Let_def sgn_if)
qed

lemma d_Round_eq:
  "d_Round d p =
   \<lparr>dvalue = sgn (dvalue (rescale d (- p - 1))) * ((\<bar>dvalue (rescale d (- p - 1))\<bar> + 5) div 10),
    dexp = - p\<rparr>"
proof -
  let ?r = "dvalue (rescale d (- p - 1))"
  have "d_Round d p =
     \<lparr>dvalue = (let v = (if ?r < 0 then ?r - 5 else ?r + 5); q = v div 10; m = v mod 10
                 in if q < 0 \<and> m \<noteq> 0 then q + 1 else q), dexp = - p\<rparr>"
    by (simp add: d_Round_def Let_def big_Sign_def big_Cmp_def rescale_exp)
  then show ?thesis
    by (simp only: round_core)
qed

lemma div_half_away: "0 < M \<Longrightarrow> (a div M + 5) div 10 = (2 * a + 10 * M) div (20 * M)"
  for a M :: int
proof -
  assume M: "0 < M"
  have "a div M + 5 = (a + M * 5) div M"
    using M by simp
  then have lhs: "(a div M + 5) div 10 = (a + M * 5) div (M * 10)"
    by (simp add: zdiv_zmult2_eq)
  have e1: "2 * a + 10 * M = 2 * (a + M * 5)"
    by simp
  have e2: "20 * M = 2 * (M * 10)"
    by simp
  have step: "(2 * (a + M * 5)) div (2 * (M * 10)) = (a + M * 5) div (M * 10)"
    by (rule div_mult_mult1) simp
  have "(2 * a + 10 * M) div (20 * M) = (a + M * 5) div (M * 10)"
    by (simp only: e1 e2 step)
  with lhs show ?thesis
    by simp
qed

lemma sgn_quo_round:
  "0 \<le> x \<Longrightarrow> sgn (sgn v * x) * ((\<bar>sgn v * x\<bar> + 5) div 10) = sgn v * ((x + 5) div 10)" for v x :: int
  by (cases "x = 0"; cases "v = 0"; cases "v < 0") (simp_all add: sgn_if abs_mult)

lemma roundHalfAway_nearest:
  assumes "0 < D"
  shows "2 * \<bar>roundHalfAway v D * D - v\<bar> \<le> D \<and>
         (2 * \<bar>roundHalfAway v D * D - v\<bar> = D \<longrightarrow> \<bar>v\<bar> < \<bar>roundHalfAway v D * D\<bar>)"
proof -
  define a where "a = \<bar>v\<bar>"
  define k where "k = (2 * a + D) div (2 * D)"
  define r where "r = (2 * a + D) mod (2 * D)"
  have r0: "0 \<le> r" and r1: "r < 2 * D"
    using assms by (simp_all add: r_def)
  have "2 * a + D = (2 * D) * k + r"
    by (simp add: k_def r_def)
  then have eq: "2 * a + D = 2 * (k * D) + r"
    by (simp add: algebra_simps)
  have k0: "0 \<le> k"
    unfolding k_def a_def using assms by (simp add: pos_imp_zdiv_nonneg_iff)
  define x where "x = k * D"
  have eq': "2 * a + D = 2 * x + r"
    using eq by (simp only: x_def)
  have "2 * (x - a) \<le> D"
    using eq' r0 r1 by arith
  then have b1: "2 * (k * D - a) \<le> D"
    by (simp only: x_def)
  have "- D < 2 * (x - a)"
    using eq' r0 r1 by arith
  then have b2: "- D < 2 * (k * D - a)"
    by (simp only: x_def)
  have split: "roundHalfAway v D * D - v = sgn v * (k * D - a)"
  proof -
    have "v = sgn v * a"
      by (simp add: a_def mult_sgn_abs)
    then have "sgn v * (k * D - a) = sgn v * k * D - v"
      by (simp add: algebra_simps)
    then show ?thesis
      by (simp add: roundHalfAway_def k_def a_def)
  qed
  have err: "\<bar>roundHalfAway v D * D - v\<bar> = \<bar>k * D - a\<bar>" if "v \<noteq> 0"
    using that by (simp add: split abs_mult)
  have mag: "\<bar>roundHalfAway v D * D\<bar> = k * D" if "v \<noteq> 0"
    using that k0 assms by (simp add: roundHalfAway_def k_def a_def abs_mult)
  have near: "2 * \<bar>roundHalfAway v D * D - v\<bar> \<le> D"
  proof (cases "v = 0")
    case True
    with assms show ?thesis
      by (simp add: roundHalfAway_def)
  next
    case False
    from b1 b2 show ?thesis
      unfolding err [OF False] by arith
  qed
  have tie: "2 * \<bar>roundHalfAway v D * D - v\<bar> = D \<longrightarrow> \<bar>v\<bar> < \<bar>roundHalfAway v D * D\<bar>"
  proof
    assume t: "2 * \<bar>roundHalfAway v D * D - v\<bar> = D"
    have v0: "v \<noteq> 0"
      using t assms by (auto simp: roundHalfAway_def)
    from t have "2 * \<bar>k * D - a\<bar> = D"
      by (simp only: err [OF v0])
    with b2 assms have "a < k * D"
      by arith
    then show "\<bar>v\<bar> < \<bar>roundHalfAway v D * D\<bar>"
      by (simp only: mag [OF v0] a_def)
  qed
  from near tie show ?thesis ..
qed

lemma roundHalfAway_sign: "0 < D \<Longrightarrow> (0 < roundHalfAway v D \<longrightarrow> 0 < v) \<and> (roundHalfAway v D < 0 \<longrightarrow> v < 0)"
proof -
  assume "0 < D"
  then have "0 \<le> (2 * \<bar>v\<bar> + D) div (2 * D)"
    by (simp add: pos_imp_zdiv_nonneg_iff)
  then show ?thesis
    by (auto simp: roundHalfAway_def sgn_if zero_less_mult_iff mult_less_0_iff split: if_splits)
qed

lemma d_Round_rounds:
  assumes hp: "sint p \<noteq> - 2147483648" and k: "sint (dexp d) + sint p < 0"
  shows "d_Round d p =
         \<lparr>dvalue = roundHalfAway (dvalue d) (10 ^ nat (- (sint (dexp d) + sint p))), dexp = - p\<rparr>"
proof -
  define M :: int where "M = 10 ^ nat (- sint p - 1 - sint (dexp d))"
  have M: "0 < M"
    by (simp add: M_def)
  have "nat (- (sint (dexp d) + sint p)) = Suc (nat (- sint p - 1 - sint (dexp d)))"
    using k by simp
  then have D: "(10::int) ^ nat (- (sint (dexp d) + sint p)) = 10 * M"
    by (simp add: M_def)
  have le: "sint (dexp d) \<le> sint (- p - 1)"
    using k by (simp add: sint32_neg_pred [OF hp])
  have r: "dvalue (rescale d (- p - 1)) = sgn (dvalue d) * (\<bar>dvalue d\<bar> div M)"
    using le by (simp add: rescale_value sint32_neg_pred [OF hp] M_def big_Quo_pos)
  have x: "0 \<le> \<bar>dvalue d\<bar> div M"
    using M by (simp add: pos_imp_zdiv_nonneg_iff)
  have "sgn (dvalue (rescale d (- p - 1))) * ((\<bar>dvalue (rescale d (- p - 1))\<bar> + 5) div 10) =
        sgn (dvalue d) * ((2 * \<bar>dvalue d\<bar> + 10 * M) div (20 * M))"
    by (simp only: r sgn_quo_round [OF x] div_half_away [OF M])
  also have "\<dots> = roundHalfAway (dvalue d) (10 * M)"
    by (simp add: roundHalfAway_def)
  finally show ?thesis
    by (simp only: d_Round_eq D)
qed

lemma d_Round_exact:
  assumes hp: "sint p \<noteq> - 2147483648" and k: "0 \<le> sint (dexp d) + sint p"
  shows "d_Round d p = \<lparr>dvalue = dvalue d * 10 ^ nat (sint (dexp d) + sint p), dexp = - p\<rparr>"
proof -
  define y where "y = dvalue d * 10 ^ nat (sint (dexp d) + sint p)"
  have "nat (sint (dexp d) - (- sint p - 1)) = Suc (nat (sint (dexp d) + sint p))"
    using k by simp
  then have r: "dvalue (rescale d (- p - 1)) = y * 10"
    using k by (simp add: rescale_value sint32_neg_pred [OF hp] y_def)
  have "sgn (y * 10) * ((\<bar>y * 10\<bar> + 5) div 10) = y"
  proof -
    have "(\<bar>y\<bar> * 10 + 5) div 10 = \<bar>y\<bar>"
      by simp
    then show ?thesis
      by (simp add: abs_mult sgn_mult mult_sgn_abs)
  qed
  then show ?thesis
    by (simp only: d_Round_eq r y_def)
qed

lemma min32_le: "sint x \<le> sint y \<Longrightarrow> min32 x y = x"
  by (auto simp: min32_def sint32_eq_iff)

lemma min32_ge: "sint y \<le> sint x \<Longrightarrow> min32 x y = y"
  by (simp add: min32_def)

lemma rescale_same: "rescale d (dexp d) = d"
  by (simp add: rescale_def)

lemma rescale_up:
  "sint t \<le> sint (dexp d) \<Longrightarrow>
   rescale d t = \<lparr>dvalue = dvalue d * 10 ^ nat (sint (dexp d) - sint t), dexp = t\<rparr>"
  by (cases "sint t = sint (dexp d)") (auto simp: rescale_def Let_def sint32_eq_iff)

lemma d_Sub_le:
  "sint (dexp a) \<le> sint (dexp b) \<Longrightarrow>
   d_Sub a b = \<lparr>dvalue = dvalue a - dvalue b * 10 ^ nat (sint (dexp b) - sint (dexp a)), dexp = dexp a\<rparr>"
  by (simp add: d_Sub_def Let_def min32_le rescale_same rescale_up)

lemma d_Sub_ge:
  "sint (dexp b) \<le> sint (dexp a) \<Longrightarrow>
   d_Sub a b = \<lparr>dvalue = dvalue a * 10 ^ nat (sint (dexp a) - sint (dexp b)) - dvalue b, dexp = dexp b\<rparr>"
  by (simp add: d_Sub_def Let_def min32_ge rescale_same rescale_up)

lemma d_Add_le:
  "sint (dexp a) \<le> sint (dexp b) \<Longrightarrow>
   d_Add a b = \<lparr>dvalue = dvalue a + dvalue b * 10 ^ nat (sint (dexp b) - sint (dexp a)), dexp = dexp a\<rparr>"
  by (simp add: d_Add_def Let_def min32_le rescale_same rescale_up)

lemma d_Cmp_le:
  "sint (dexp a) \<le> sint (dexp b) \<Longrightarrow>
   d_Cmp a b = big_Cmp (dvalue a) (dvalue b * 10 ^ nat (sint (dexp b) - sint (dexp a)))"
  by (cases "dexp a = dexp b") (simp_all add: d_Cmp_def Let_def min32_le rescale_same rescale_up)

lemma d_Cmp_ge:
  "sint (dexp b) \<le> sint (dexp a) \<Longrightarrow>
   d_Cmp a b = big_Cmp (dvalue a * 10 ^ nat (sint (dexp a) - sint (dexp b))) (dvalue b)"
  by (cases "dexp a = dexp b") (simp_all add: d_Cmp_def Let_def min32_ge rescale_same rescale_up)

lemma big_Cmp_eq_0: "(big_Cmp x y = 0) = (x = y)"
  by (simp add: big_Cmp_def)

lemma d_RoundBank_rounds:
  assumes hp: "sint p \<noteq> - 2147483648" and k: "sint (dexp d) + sint p < 0"
  defines "D \<equiv> 10 ^ nat (- (sint (dexp d) + sint p))"
  defines "n \<equiv> roundHalfAway (dvalue d) D"
  shows "d_RoundBank d p =
         \<lparr>dvalue = (if 2 * \<bar>n * D - dvalue d\<bar> = D \<and> odd n then (if n < 0 then n + 1 else n - 1) else n),
          dexp = - p\<rparr>"
proof -
  have round: "d_Round d p = \<lparr>dvalue = n, dexp = - p\<rparr>"
    unfolding n_def D_def by (rule d_Round_rounds [OF hp k])
  have e1: "sint (dexp d) \<le> sint (- p)"
    using k by (simp add: sint32_neg [OF hp])
  have "nat (sint (- p) - sint (dexp d)) = nat (- (sint (dexp d) + sint p))"
    by (simp add: sint32_neg [OF hp])
  then have sub: "d_Sub d \<lparr>dvalue = n, dexp = - p\<rparr> = \<lparr>dvalue = dvalue d - n * D, dexp = dexp d\<rparr>"
    using d_Sub_le [of d "\<lparr>dvalue = n, dexp = - p\<rparr>"] e1 by (simp add: D_def)
  have e2: "sint (dexp d) \<le> sint (- p - 1)"
    using k by (simp add: sint32_neg_pred [OF hp])
  define H :: int where "H = 5 * 10 ^ nat (sint (- p - 1) - sint (dexp d))"
  have "nat (- (sint (dexp d) + sint p)) = Suc (nat (sint (- p - 1) - sint (dexp d)))"
    using k by (simp add: sint32_neg_pred [OF hp])
  then have D2: "D = 2 * H"
    by (simp add: D_def H_def)
  have c1: "d_Cmp \<lparr>dvalue = \<bar>dvalue d - n * D\<bar>, dexp = dexp d\<rparr> (d_New 5 (- p - 1)) =
          big_Cmp \<bar>dvalue d - n * D\<bar> H"
    using d_Cmp_le [of "\<lparr>dvalue = \<bar>dvalue d - n * D\<bar>, dexp = dexp d\<rparr>" "d_New 5 (- p - 1)"] e2
    by (simp add: d_New_def H_def)
  have c2: "(\<bar>dvalue d - n * D\<bar> = H) = (2 * \<bar>n * D - dvalue d\<bar> = D)"
    unfolding D2 by (auto simp: abs_minus_commute)
  have cmp: "(d_Cmp \<lparr>dvalue = \<bar>dvalue d - n * D\<bar>, dexp = dexp d\<rparr> (d_New 5 (- p - 1)) = 0) =
             (2 * \<bar>n * D - dvalue d\<bar> = D)"
    by (simp only: c1 big_Cmp_eq_0 c2)
  show ?thesis
    by (simp add: d_RoundBank_def Let_def round sub d_Abs_def cmp big_Sign_def)
qed

lemma d_RoundBank_exact:
  assumes hp: "sint p \<noteq> - 2147483648" and k: "0 \<le> sint (dexp d) + sint p"
  shows "d_RoundBank d p = \<lparr>dvalue = dvalue d * 10 ^ nat (sint (dexp d) + sint p), dexp = - p\<rparr>"
proof -
  let ?y = "dvalue d * 10 ^ nat (sint (dexp d) + sint p)"
  have round: "d_Round d p = \<lparr>dvalue = ?y, dexp = - p\<rparr>"
    by (rule d_Round_exact [OF hp k])
  have e1: "sint (- p) \<le> sint (dexp d)"
    using k by (simp add: sint32_neg [OF hp])
  have "nat (sint (dexp d) - sint (- p)) = nat (sint (dexp d) + sint p)"
    by (simp add: sint32_neg [OF hp])
  then have sub: "d_Sub d \<lparr>dvalue = ?y, dexp = - p\<rparr> = \<lparr>dvalue = 0, dexp = - p\<rparr>"
    using d_Sub_ge [of "\<lparr>dvalue = ?y, dexp = - p\<rparr>" d] e1 by simp
  have e2: "sint (- p - 1) \<le> sint (- p)"
    by (simp add: sint32_neg [OF hp] sint32_neg_pred [OF hp])
  have cmp: "d_Cmp \<lparr>dvalue = 0, dexp = - p\<rparr> (d_New 5 (- p - 1)) \<noteq> 0"
    using d_Cmp_ge [of "d_New 5 (- p - 1)" "\<lparr>dvalue = 0, dexp = - p\<rparr>"] e2
    by (simp add: d_New_def big_Cmp_def)
  show ?thesis
    by (simp add: d_RoundBank_def Let_def round sub d_Abs_def cmp)
qed

lemma halfEven_nearest:
  fixes v D :: int
  assumes D: "0 < D"
  defines "n \<equiv> roundHalfAway v D"
  defines "b \<equiv> (if 2 * \<bar>n * D - v\<bar> = D \<and> odd n then (if n < 0 then n + 1 else n - 1) else n)"
  shows "2 * \<bar>b * D - v\<bar> \<le> D \<and> (2 * \<bar>b * D - v\<bar> = D \<longrightarrow> even b)"
proof (cases "2 * \<bar>n * D - v\<bar> = D \<and> odd n")
  case False
  then have "b = n"
    by (simp add: b_def)
  with False roundHalfAway_nearest [OF D, of v] show ?thesis
    by (auto simp: n_def)
next
  case True
  then have tie: "2 * \<bar>n * D - v\<bar> = D" and odd: "odd n"
    by simp_all
  from roundHalfAway_nearest [OF D, of v] tie have away: "\<bar>v\<bar> < \<bar>n * D\<bar>"
    by (simp add: n_def)
  define x where "x = n * D"
  show ?thesis
  proof (cases "n < 0")
    case True
    with roundHalfAway_sign [OF D, of v] have "v < 0"
      by (simp add: n_def)
    have "x < 0"
      unfolding x_def using True D by (simp add: mult_less_0_iff)
    with away \<open>v < 0\<close> have "x < v"
      by (simp add: x_def)
    with tie have "2 * (v - x) = D"
      by (simp add: x_def)
    then have "2 * \<bar>(x + D) - v\<bar> = D"
      using D by arith
    moreover have "b * D = x + D"
      using True tie odd by (simp add: b_def x_def algebra_simps)
    moreover have "even b"
      using True tie odd by (simp add: b_def)
    ultimately show ?thesis
      by simp
  next
    case False
    with odd have "0 < n"
      by (cases "n = 0") auto
    with roundHalfAway_sign [OF D, of v] have "0 < v"
      by (simp add: n_def)
    have "0 < x"
      unfolding x_def using \<open>0 < n\<close> D by simp
    with away \<open>0 < v\<close> have "v < x"
      by (simp add: x_def)
    with tie have "2 * (x - v) = D"
      by (simp add: x_def)
    then have "2 * \<bar>(x - D) - v\<bar> = D"
      using D by arith
    moreover have "b * D = x - D"
      using False tie odd by (simp add: b_def x_def algebra_simps)
    moreover have "even b"
      using False tie odd by (simp add: b_def)
    ultimately show ?thesis
      by simp
  qed
qed

lemma amount_Round: "amount (Round m places) = d_Round (amount m) places"
  by (simp add: Round_def Let_def amount_ensureInitialized)

lemma amount_RoundBank: "amount (RoundBank m places) = d_RoundBank (amount m) places"
  by (simp add: RoundBank_def Let_def amount_ensureInitialized)

lemma Round_examples:
  "amount (Round \<lparr>amount = d_New 545 (- 2), currency = c\<rparr> 1) = d_New 55 (- 1)"
  "amount (Round \<lparr>amount = d_New (- 545) (- 2), currency = c\<rparr> 1) = d_New (- 55) (- 1)"
  "amount (RoundBank \<lparr>amount = d_New 545 (- 2), currency = c\<rparr> 1) = d_New 54 (- 1)"
  "amount (RoundBank \<lparr>amount = d_New 555 (- 2), currency = c\<rparr> 1) = d_New 56 (- 1)"
  by (simp_all add: amount_Round amount_RoundBank d_RoundBank_def d_Round_def d_Sub_def d_Abs_def
      d_Cmp_def d_New_def min32_def rescale_def big_Quo_def big_Sign_def big_Cmp_def Let_def)

text \<open>C6. \<^verbatim>\<open>Round\<close> rounds half away from zero and \<^verbatim>\<open>RoundBank\<close> rounds half to even. With
  \<open>D\<close> the weight of one unit of the last kept digit in units of the amount's coefficient
  \<open>v\<close>, both results have the exponent \<^verbatim>\<open>-places\<close> and a coefficient \<open>n\<close> with
  \<open>|n D - v| \<le> D / 2\<close>; on a tie \<^verbatim>\<open>Round\<close> takes the neighbour of larger magnitude and
  \<^verbatim>\<open>RoundBank\<close> the even one. An amount without digits beyond \<^verbatim>\<open>places\<close> keeps its value.
  \<^verbatim>\<open>Round(5.45, 1) = 5.5\<close>, \<^verbatim>\<open>Round(-5.45, 1) = -5.5\<close>, \<^verbatim>\<open>RoundBank(5.45, 1) = 5.4\<close> and
  \<^verbatim>\<open>RoundBank(5.55, 1) = 5.6\<close>.\<close>

theorem Round_half_away_RoundBank_half_even:
  fixes m :: Money and places :: int32
  defines "v \<equiv> dvalue (amount m)"
  defines "k \<equiv> sint (dexp (amount m)) + sint places"
  defines "n \<equiv> dvalue (amount (Round m places))"
  defines "b \<equiv> dvalue (amount (RoundBank m places))"
  assumes "sint places \<noteq> - 2147483648"
  shows "dexp (amount (Round m places)) = - places \<and>
         dexp (amount (RoundBank m places)) = - places \<and>
         (k < 0 \<longrightarrow>
            2 * \<bar>n * 10 ^ nat (- k) - v\<bar> \<le> 10 ^ nat (- k) \<and>
            (2 * \<bar>n * 10 ^ nat (- k) - v\<bar> = 10 ^ nat (- k) \<longrightarrow> \<bar>v\<bar> < \<bar>n * 10 ^ nat (- k)\<bar>) \<and>
            2 * \<bar>b * 10 ^ nat (- k) - v\<bar> \<le> 10 ^ nat (- k) \<and>
            (2 * \<bar>b * 10 ^ nat (- k) - v\<bar> = 10 ^ nat (- k) \<longrightarrow> even b)) \<and>
         (0 \<le> k \<longrightarrow> n = v * 10 ^ nat k \<and> b = v * 10 ^ nat k) \<and>
         amount (Round \<lparr>amount = d_New 545 (- 2), currency = c\<rparr> 1) = d_New 55 (- 1) \<and>
         amount (Round \<lparr>amount = d_New (- 545) (- 2), currency = c\<rparr> 1) = d_New (- 55) (- 1) \<and>
         amount (RoundBank \<lparr>amount = d_New 545 (- 2), currency = c\<rparr> 1) = d_New 54 (- 1) \<and>
         amount (RoundBank \<lparr>amount = d_New 555 (- 2), currency = c\<rparr> 1) = d_New 56 (- 1)"
proof -
  note hp = assms(5)
  have ex1: "dexp (amount (Round m places)) = - places"
    by (simp add: amount_Round d_Round_eq)
  have ex2: "dexp (amount (RoundBank m places)) = - places"
    by (simp add: amount_RoundBank d_RoundBank_def Let_def d_Round_eq)
  have neg: "k < 0 \<longrightarrow>
            2 * \<bar>n * 10 ^ nat (- k) - v\<bar> \<le> 10 ^ nat (- k) \<and>
            (2 * \<bar>n * 10 ^ nat (- k) - v\<bar> = 10 ^ nat (- k) \<longrightarrow> \<bar>v\<bar> < \<bar>n * 10 ^ nat (- k)\<bar>) \<and>
            2 * \<bar>b * 10 ^ nat (- k) - v\<bar> \<le> 10 ^ nat (- k) \<and>
            (2 * \<bar>b * 10 ^ nat (- k) - v\<bar> = 10 ^ nat (- k) \<longrightarrow> even b)"
  proof
    assume k: "k < 0"
    define D :: int where "D = 10 ^ nat (- k)"
    have D: "0 < D"
      by (simp add: D_def)
    from k have k': "sint (dexp (amount m)) + sint places < 0"
      by (simp add: k_def)
    have n: "n = roundHalfAway v D"
      by (simp add: n_def amount_Round d_Round_rounds [OF hp k'] D_def k_def v_def)
    have b: "b = (if 2 * \<bar>roundHalfAway v D * D - v\<bar> = D \<and> odd (roundHalfAway v D)
                  then (if roundHalfAway v D < 0 then roundHalfAway v D + 1 else roundHalfAway v D - 1)
                  else roundHalfAway v D)"
      by (simp add: b_def amount_RoundBank d_RoundBank_rounds [OF hp k'] D_def k_def v_def)
    from roundHalfAway_nearest [OF D, of v] halfEven_nearest [OF D, of v]
    have "2 * \<bar>n * D - v\<bar> \<le> D \<and> (2 * \<bar>n * D - v\<bar> = D \<longrightarrow> \<bar>v\<bar> < \<bar>n * D\<bar>) \<and>
          2 * \<bar>b * D - v\<bar> \<le> D \<and> (2 * \<bar>b * D - v\<bar> = D \<longrightarrow> even b)"
      unfolding n b by blast
    then show "2 * \<bar>n * 10 ^ nat (- k) - v\<bar> \<le> 10 ^ nat (- k) \<and>
            (2 * \<bar>n * 10 ^ nat (- k) - v\<bar> = 10 ^ nat (- k) \<longrightarrow> \<bar>v\<bar> < \<bar>n * 10 ^ nat (- k)\<bar>) \<and>
            2 * \<bar>b * 10 ^ nat (- k) - v\<bar> \<le> 10 ^ nat (- k) \<and>
            (2 * \<bar>b * 10 ^ nat (- k) - v\<bar> = 10 ^ nat (- k) \<longrightarrow> even b)"
      unfolding D_def .
  qed
  have pos: "0 \<le> k \<longrightarrow> n = v * 10 ^ nat k \<and> b = v * 10 ^ nat k"
  proof
    assume "0 \<le> k"
    then have k': "0 \<le> sint (dexp (amount m)) + sint places"
      by (simp add: k_def)
    show "n = v * 10 ^ nat k \<and> b = v * 10 ^ nat k"
      by (simp add: n_def b_def amount_Round amount_RoundBank d_Round_exact [OF hp k']
          d_RoundBank_exact [OF hp k'] k_def v_def)
  qed
  from ex1 ex2 neg pos Round_examples [of c] show ?thesis
    by (intro conjI)
qed

theorem Round_half_away_RoundBank_half_even_witness:
  "sint (1 :: int32) \<noteq> - 2147483648 \<and>
   sint (dexp (amount \<lparr>amount = d_New 545 (- 2), currency = None\<rparr>)) + sint (1 :: int32) < 0 \<and>
   dvalue (amount (Round \<lparr>amount = d_New 545 (- 2), currency = None\<rparr> 1)) = 55 \<and>
   dvalue (amount (RoundBank \<lparr>amount = d_New 545 (- 2), currency = None\<rparr> 1)) = 54 \<and>
   2 * \<bar>55 * 10 ^ nat 1 - 545\<bar> = (10 ^ nat 1 :: int) \<and>
   \<bar>545 :: int\<bar> < \<bar>55 * 10 ^ nat 1\<bar> \<and>
   2 * \<bar>54 * 10 ^ nat 1 - 545\<bar> = (10 ^ nat 1 :: int) \<and>
   even (54 :: int) \<and>
   0 \<le> sint (dexp (amount \<lparr>amount = d_New 5 0, currency = None\<rparr>)) + sint (1 :: int32) \<and>
   dvalue (amount (Round \<lparr>amount = d_New 5 0, currency = None\<rparr> 1)) = 50 \<and>
   dvalue (amount (RoundBank \<lparr>amount = d_New 5 0, currency = None\<rparr> 1)) = 50"
proof -
  let ?m = "\<lparr>amount = d_New 545 (- 2), currency = None\<rparr>"
  let ?w = "\<lparr>amount = d_New 5 0, currency = None\<rparr>"
  have hp: "sint (1 :: int32) \<noteq> - 2147483648"
    by simp
  have k: "sint (dexp (amount ?m)) + sint (1 :: int32) = - 1"
    by (simp add: d_New_def)
  have kw: "sint (dexp (amount ?w)) + sint (1 :: int32) = 1"
    by (simp add: d_New_def)
  have v: "dvalue (amount ?m) = 545" and vw: "dvalue (amount ?w) = 5"
    by (simp_all add: d_New_def)
  have n: "dvalue (amount (Round ?m 1)) = 55"
    by code_simp
  have b: "dvalue (amount (RoundBank ?m 1)) = 54"
    by code_simp
  note t = Round_half_away_RoundBank_half_even [OF hp, of ?m, unfolded k v n b]
  have t1: "2 * \<bar>55 * 10 ^ nat 1 - 545\<bar> = (10 ^ nat 1 :: int)"
    by simp
  from t t1 have away: "\<bar>545 :: int\<bar> < \<bar>55 * 10 ^ nat 1\<bar>"
    by simp
  have t2: "2 * \<bar>54 * 10 ^ nat 1 - 545\<bar> = (10 ^ nat 1 :: int)"
    by simp
  from t t2 have ev: "even (54 :: int)"
    by simp
  note tw = Round_half_away_RoundBank_half_even [OF hp, of ?w, unfolded kw vw]
  from tw have nw: "dvalue (amount (Round ?w 1)) = 50" and bw: "dvalue (amount (RoundBank ?w 1)) = 50"
    by simp_all
  have k0: "sint (dexp (amount ?m)) + sint (1 :: int32) < 0"
    by (simp only: k)
  have kw0: "0 \<le> sint (dexp (amount ?w)) + sint (1 :: int32)"
    by (simp only: kw)
  from hp k0 n b t1 away t2 ev kw0 nw bw show ?thesis
    by (intro conjI)
qed

section \<open>Cash rounding\<close>




















end
